theory Spec2Isabelle
  imports Main
begin

text \<open>
  A model of \<open>babel-plugin-inline-debugger\<close>: the marker scanner and the visitors of
  the Babel plugin for expression statements, calls, \<open>return\<close> and \<open>throw\<close> statements
  under Babel's traversal, and the runtime (\<open>InlineDebuggerRuntime\<close>) with its
  serializer, its store and the accessors it installs on \<open>global.inlineDebugger\<close>.
  Definitions come first, in the order serializer, scanner, runtime, transform; the
  results follow.
\<close>

section \<open>JavaScript values\<close>

text \<open>
  The runtime receives arbitrary JavaScript values. They are modelled as primitives and
  references into a heap of objects, so that two occurrences of one object are the same
  reference and an object may contain itself. Strings are sequences of code units below
  256; numbers are the integral ones, printed in plain decimal.

  A function object is given by the text \<open>Function.prototype.toString\<close> returns for it
  and by how a call of it completes; the functions of this universe complete the same way
  on every call and touch nothing. The property list of an object holds its own
  enumerable data properties (no accessors, no proxies), an \<open>Error\<close> object has its
  \<open>message\<close> and no enumerable property, and \<open>OPromise\<close> is a native promise. A
  \<open>toJSON\<close> method, which \<open>JSON.stringify\<close> calls, is not part of the property list:
  the methods are given apart (\<open>methods\<close> below).
\<close>

type_synonym ref = nat

datatype jsval = VUndefined | VNull | VBool bool | VNum int | VBigInt int | VStr string | VRef ref

text \<open>A JSON document, as \<open>JSON.stringify\<close> writes it and \<open>JSON.parse\<close> reads it.\<close>

datatype json = JNull | JBool bool | JNum int | JStr string | JArr "json list" | JObj "(string \<times> json) list"

text \<open>
  What a \<open>throw\<close> carries: a value of the program; a \<open>TypeError\<close> object the engine
  has just created (given by its message); or the error object with which \<open>fs\<close> reports
  a failed system call (given by its message and by its enumerable properties \<open>errno\<close>,
  \<open>code\<close>, \<open>syscall\<close>, \<open>path\<close>, which are numbers and strings).
\<close>

datatype exn = Thrown jsval | TypeError string | SystemError string "(string \<times> json) list"

datatype 'a completion = Returns 'a | Throws exn

datatype obj =
    OObject "(string \<times> jsval) list"
  | OArray "jsval list"
  | OError string
  | OFunction string "jsval completion"
  | OPromise

type_synonym heap = "obj list"

definition hlookup :: "heap \<Rightarrow> ref \<Rightarrow> obj option" where
  "hlookup h r = (if r < length h then Some (h ! r) else None)"

text \<open>\<open>ToBoolean\<close>.\<close>

definition truthy :: "jsval \<Rightarrow> bool" where
  "truthy v = (case v of
       VUndefined \<Rightarrow> False | VNull \<Rightarrow> False | VBool b \<Rightarrow> b | VNum n \<Rightarrow> n \<noteq> 0
     | VBigInt n \<Rightarrow> n \<noteq> 0 | VStr s \<Rightarrow> s \<noteq> [] | VRef r \<Rightarrow> True)"

definition own_prop :: "(string \<times> jsval) list \<Rightarrow> string \<Rightarrow> jsval" where
  "own_prop ps k = (case map_of ps k of None \<Rightarrow> VUndefined | Some v \<Rightarrow> v)"

text \<open>
  \<open>value?.then\<close> as a condition: a native promise has the built-in method, a plain object
  has whatever its own property \<open>then\<close> holds, nothing else in the universe has one.
\<close>

definition has_then :: "heap \<Rightarrow> jsval \<Rightarrow> bool" where
  "has_then h v = (case v of
       VRef r \<Rightarrow> (case hlookup h r of
                    Some OPromise \<Rightarrow> True
                  | Some (OObject ps) \<Rightarrow> truthy (own_prop ps ''then'')
                  | _ \<Rightarrow> False)
     | _ \<Rightarrow> False)"

text \<open>
  \<open>error.message\<close> on what was caught: reading a property of \<open>null\<close> or \<open>undefined\<close>
  throws; an \<open>Error\<close> has its message, a plain object its own property of that name,
  anything else in the universe has none.
\<close>

definition read_of_nullish :: "string \<Rightarrow> string \<Rightarrow> exn" where
  "read_of_nullish what prop =
     TypeError (''Cannot read properties of '' @ what @ '' (reading '' @ [CHR 0x27] @ prop @ [CHR 0x27] @ '')'')"

definition get_message :: "heap \<Rightarrow> exn \<Rightarrow> jsval completion" where
  "get_message h e =
     (case e of
        TypeError m \<Rightarrow> Returns (VStr m)
      | SystemError m ps \<Rightarrow> Returns (VStr m)
      | Thrown v \<Rightarrow>
          (case v of
             VUndefined \<Rightarrow> Throws (read_of_nullish ''undefined'' ''message'')
           | VNull \<Rightarrow> Throws (read_of_nullish ''null'' ''message'')
           | VRef r \<Rightarrow>
               (case hlookup h r of
                  Some (OError m) \<Rightarrow> Returns (VStr m)
                | Some (OObject ps) \<Rightarrow> Returns (own_prop ps ''message'')
                | _ \<Rightarrow> Returns VUndefined)
           | _ \<Rightarrow> Returns VUndefined))"

section \<open>Serializer\<close>

subsection \<open>The two regular expressions of \<open>getFn\<close> and \<open>getArrowFn\<close>\<close>

text \<open>
  Both patterns are sequences of single characters and greedy stars over character
  classes; \<open>rx_match\<close> is the backtracking matcher for that fragment (it returns the text
  left after the match), and \<open>js_match\<close> is \<open>String.prototype.match\<close> without the
  \<open>g\<close> flag, reduced to \<open>match[0]\<close>: the first start position that matches wins.
\<close>

datatype cls = CChar char | CSpace | CWord | CNotRParen | CAny

definition is_space :: "char \<Rightarrow> bool" where
  "is_space c = (c \<in> set [CHR 0x20, CHR 0x09, CHR 0x0A, CHR 0x0B, CHR 0x0C, CHR 0x0D, CHR 0xA0])"

definition is_word :: "char \<Rightarrow> bool" where
  "is_word c = (c \<in> set (''abcdefghijklmnopqrstuvwxyz'' @ ''ABCDEFGHIJKLMNOPQRSTUVWXYZ'' @ ''0123456789_''))"

fun in_cls :: "cls \<Rightarrow> char \<Rightarrow> bool" where
  "in_cls (CChar d) c = (c = d)"
| "in_cls CSpace c = is_space c"
| "in_cls CWord c = is_word c"
| "in_cls CNotRParen c = (c \<noteq> CHR '')'')"
| "in_cls CAny c = True"

datatype item = One cls | Star cls

fun rx_match :: "item list \<Rightarrow> string \<Rightarrow> string option" where
  "rx_match [] s = Some s"
| "rx_match (One c # r) [] = None"
| "rx_match (One c # r) (x # xs) = (if in_cls c x then rx_match r xs else None)"
| "rx_match (Star c # r) [] = rx_match r []"
| "rx_match (Star c # r) (x # xs) =
     (if in_cls c x
      then (case rx_match (Star c # r) xs of Some rest \<Rightarrow> Some rest | None \<Rightarrow> rx_match r (x # xs))
      else rx_match r (x # xs))"

fun js_match :: "item list \<Rightarrow> string \<Rightarrow> string option" where
  "js_match rx s =
     (case rx_match rx s of
        Some rest \<Rightarrow> Some (take (length s - length rest) s)
      | None \<Rightarrow> (case s of [] \<Rightarrow> None | x # xs \<Rightarrow> js_match rx xs))"

definition lits :: "string \<Rightarrow> item list" where
  "lits s = map (\<lambda>c. One (CChar c)) s"

text \<open>\<^verbatim>\<open>/function\s*(\w*)\s*\([^)]*\)\s*{[\s\S]*}/\<close>\<close>

definition fn_regex :: "item list" where
  "fn_regex = lits ''function'' @ [Star CSpace, Star CWord, Star CSpace, One (CChar CHR ''(''),
     Star CNotRParen, One (CChar CHR '')''), Star CSpace, One (CChar CHR ''{''), Star CAny,
     One (CChar CHR ''}'')]"

text \<open>\<^verbatim>\<open>/\([^)]*\)\s*=>\s*{[\s\S]*}/\<close>\<close>

definition arrow_regex :: "item list" where
  "arrow_regex = [One (CChar CHR ''(''), Star CNotRParen, One (CChar CHR '')''), Star CSpace]
     @ lits ''=>'' @ [Star CSpace, One (CChar CHR ''{''), Star CAny, One (CChar CHR ''}'')]"

definition getFn :: "string \<Rightarrow> string option" where
  "getFn fnStr = js_match fn_regex fnStr"

definition getArrowFn :: "string \<Rightarrow> string option" where
  "getArrowFn fnStr = js_match arrow_regex fnStr"

subsection \<open>\<open>JSON.stringify\<close>\<close>

text \<open>
  \<open>JSON.stringify\<close> is split into the traversal that builds the document (\<open>ser_val\<close>,
  the abstract operation \<open>SerializeJSONProperty\<close>) and the printer \<open>render\<close> of the
  compact text.
\<close>

definition UNDEFINED_FLAG :: string where
  "UNDEFINED_FLAG = ''__INLINE_DEBUGGER_UNDEFINED__''"

text \<open>
  The replacer callback of \<open>stringify\<close>, with the array \<open>cache\<close> it closes over passed in
  and out. A result \<open>VUndefined\<close> is the bare \<open>return;\<close> of a repeated object.
\<close>

definition replacer :: "heap \<Rightarrow> ref list \<Rightarrow> jsval \<Rightarrow> jsval \<times> ref list" where
  "replacer h cache v =
     (case v of
        VUndefined \<Rightarrow> (VStr UNDEFINED_FLAG, cache)
      | VRef r \<Rightarrow>
          (case hlookup h r of
             Some (OFunction src b) \<Rightarrow>
               ((case getFn src of
                   Some m \<Rightarrow> VStr m
                 | None \<Rightarrow> (case getArrowFn src of Some m \<Rightarrow> VStr m | None \<Rightarrow> VNull)), cache)
           | _ \<Rightarrow>
               if has_then h v then (VStr ''Promise'', cache)
               else if r \<in> set cache then (VUndefined, cache)
               else (v, cache @ [r]))
      | _ \<Rightarrow> (v, cache))"

text \<open>
  The \<open>toJSON\<close> methods of the objects: \<open>tj r\<close> is how a call of the method of the
  object \<open>r\<close> completes, when \<open>r\<close> has one (its own or an inherited one). It is code of
  the program under observation: it may return any value or throw any value.
  \<open>SerializeJSONProperty\<close> calls it before the replacer.
\<close>

type_synonym methods = "ref \<rightharpoonup> jsval completion"

definition toJSON_step :: "methods \<Rightarrow> jsval \<Rightarrow> jsval completion" where
  "toJSON_step tj v = (case v of VRef r \<Rightarrow> (case tj r of Some c \<Rightarrow> c | None \<Rightarrow> Returns v) | _ \<Rightarrow> Returns v)"

text \<open>The messages of the two \<open>TypeError\<close>s \<open>JSON.stringify\<close> throws (V8's wording).\<close>

definition circular_msg :: string where
  "circular_msg = ''Converting circular structure to JSON''"

definition bigint_msg :: string where
  "bigint_msg = ''Do not know how to serialize a BigInt''"

text \<open>
  The measure of the traversal below: every descent into an object pushes it on the
  stack of objects being serialized, and an object already there is refused, so the
  number of heap objects not on the stack decreases.
\<close>

definition unvisited :: "heap \<Rightarrow> ref list \<Rightarrow> nat" where
  "unvisited h stack = card {r. r < length h \<and> r \<notin> set stack}"

lemma unvisited_push:
  assumes "r < length h" and "r \<notin> set stack"
  shows "unvisited h (r # stack) < unvisited h stack"
proof -
  have "{x. x < length h \<and> x \<notin> set (r # stack)} \<subset> {x. x < length h \<and> x \<notin> set stack}"
    using assms by auto
  moreover have "finite {x. x < length h \<and> x \<notin> set stack}"
    by simp
  ultimately show ?thesis
    unfolding unvisited_def by (rule psubset_card_mono [rotated])
qed

text \<open>
  \<open>ser_val rep tj h stack cache v\<close>: the value \<open>v\<close> of a property, first replaced by the
  result of its \<open>toJSON\<close> method if it has one, then passed through the replacer when
  \<open>rep\<close> holds, then serialized. \<open>stack\<close> is the list of objects being serialized around
  \<open>v\<close>, which \<open>JSON.stringify\<close> keeps to throw on a cycle; the result is what was
  thrown, or the document (\<open>None\<close> for \<open>undefined\<close>: the property is left out of an
  object and printed as \<open>null\<close> in an array) with the replacer's cache.
  A reference outside the heap stands for an object without properties.
\<close>

function ser_val :: "bool \<Rightarrow> methods \<Rightarrow> heap \<Rightarrow> ref list \<Rightarrow> ref list \<Rightarrow> jsval \<Rightarrow> exn + json option \<times> ref list"
  and ser_props :: "bool \<Rightarrow> methods \<Rightarrow> heap \<Rightarrow> ref list \<Rightarrow> ref list \<Rightarrow> (string \<times> jsval) list
                    \<Rightarrow> exn + (string \<times> json) list \<times> ref list"
  and ser_elems :: "bool \<Rightarrow> methods \<Rightarrow> heap \<Rightarrow> ref list \<Rightarrow> ref list \<Rightarrow> jsval list \<Rightarrow> exn + json list \<times> ref list"
where
  "ser_val rep tj h stack cache v0 =
     (case toJSON_step tj v0 of
        Throws x \<Rightarrow> Inl x
      | Returns v1 \<Rightarrow>
     (case (if rep then replacer h cache v1 else (v1, cache)) of
        (v, cache1) \<Rightarrow>
          (case v of
             VUndefined \<Rightarrow> Inr (None, cache1)
           | VNull \<Rightarrow> Inr (Some JNull, cache1)
           | VBool b \<Rightarrow> Inr (Some (JBool b), cache1)
           | VNum n \<Rightarrow> Inr (Some (JNum n), cache1)
           | VStr s \<Rightarrow> Inr (Some (JStr s), cache1)
           | VBigInt n \<Rightarrow> Inl (TypeError bigint_msg)
           | VRef r \<Rightarrow>
               (case hlookup h r of
                  None \<Rightarrow> Inr (Some (JObj []), cache1)
                | Some (OFunction src b) \<Rightarrow> Inr (None, cache1)
                | Some (OArray es) \<Rightarrow>
                    if r \<in> set stack then Inl (TypeError circular_msg)
                    else (case ser_elems rep tj h (r # stack) cache1 es of
                            Inl e \<Rightarrow> Inl e
                          | Inr (js, cache2) \<Rightarrow> Inr (Some (JArr js), cache2))
                | Some (OObject ps) \<Rightarrow>
                    if r \<in> set stack then Inl (TypeError circular_msg)
                    else (case ser_props rep tj h (r # stack) cache1 ps of
                            Inl e \<Rightarrow> Inl e
                          | Inr (ms, cache2) \<Rightarrow> Inr (Some (JObj ms), cache2))
                | Some _ \<Rightarrow>
                    if r \<in> set stack then Inl (TypeError circular_msg) else Inr (Some (JObj []), cache1)))))"
| "ser_props rep tj h stack cache [] = Inr ([], cache)"
| "ser_props rep tj h stack cache (p # ps) =
     (case ser_val rep tj h stack cache (snd p) of
        Inl e \<Rightarrow> Inl e
      | Inr (jo, cache1) \<Rightarrow>
          (case ser_props rep tj h stack cache1 ps of
             Inl e \<Rightarrow> Inl e
           | Inr (ms, cache2) \<Rightarrow>
               Inr ((case jo of None \<Rightarrow> ms | Some j \<Rightarrow> (fst p, j) # ms), cache2)))"
| "ser_elems rep tj h stack cache [] = Inr ([], cache)"
| "ser_elems rep tj h stack cache (e # es) =
     (case ser_val rep tj h stack cache e of
        Inl x \<Rightarrow> Inl x
      | Inr (jo, cache1) \<Rightarrow>
          (case ser_elems rep tj h stack cache1 es of
             Inl x \<Rightarrow> Inl x
           | Inr (js, cache2) \<Rightarrow>
               Inr ((case jo of None \<Rightarrow> JNull | Some j \<Rightarrow> j) # js, cache2)))"
  by pat_completeness auto

termination
  apply (relation "measures [
      (\<lambda>x. case x of Inl (rep, tj, h, stack, cache, v) \<Rightarrow> unvisited h stack
                  | Inr (Inl (rep, tj, h, stack, cache, ps)) \<Rightarrow> unvisited h stack
                  | Inr (Inr (rep, tj, h, stack, cache, es)) \<Rightarrow> unvisited h stack),
      (\<lambda>x. case x of Inl (rep, tj, h, stack, cache, v) \<Rightarrow> 0
                  | Inr (Inl (rep, tj, h, stack, cache, ps)) \<Rightarrow> Suc (length ps)
                  | Inr (Inr (rep, tj, h, stack, cache, es)) \<Rightarrow> Suc (length es))]")
  apply (auto simp: hlookup_def intro: unvisited_push split: if_splits)
  done

declare ser_val.simps [simp del]

text \<open>Printing: \<open>Number::toString\<close> on integers, \<open>QuoteJSONString\<close>, and the compact text.\<close>

definition digit_chars :: string where
  "digit_chars = ''0123456789abcdef''"

fun digits :: "nat \<Rightarrow> string" where
  "digits n = (if n < 10 then [digit_chars ! n] else digits (n div 10) @ [digit_chars ! (n mod 10)])"

declare digits.simps [simp del]

definition number_text :: "int \<Rightarrow> string" where
  "number_text n = (if n < 0 then ''-'' @ digits (nat (- n)) else digits (nat n))"

definition quote_char :: "char \<Rightarrow> string" where
  "quote_char c =
     (if c = CHR 0x22 then [CHR 0x5C, CHR 0x22]
      else if c = CHR 0x5C then [CHR 0x5C, CHR 0x5C]
      else if c = CHR 0x08 then [CHR 0x5C, CHR ''b'']
      else if c = CHR 0x0C then [CHR 0x5C, CHR ''f'']
      else if c = CHR 0x0A then [CHR 0x5C, CHR ''n'']
      else if c = CHR 0x0D then [CHR 0x5C, CHR ''r'']
      else if c = CHR 0x09 then [CHR 0x5C, CHR ''t'']
      else if (of_char c :: nat) < 32
        then [CHR 0x5C, CHR ''u'', CHR ''0'', CHR ''0'',
              digit_chars ! ((of_char c :: nat) div 16), digit_chars ! ((of_char c :: nat) mod 16)]
      else [c])"

definition quote :: "string \<Rightarrow> string" where
  "quote s = [CHR 0x22] @ concat (map quote_char s) @ [CHR 0x22]"

fun join :: "string \<Rightarrow> string list \<Rightarrow> string" where
  "join sep [] = []"
| "join sep [x] = x"
| "join sep (x # y # ys) = x @ sep @ join sep (y # ys)"

fun render :: "json \<Rightarrow> string" where
  "render JNull = ''null''"
| "render (JBool b) = (if b then ''true'' else ''false'')"
| "render (JNum n) = number_text n"
| "render (JStr s) = quote s"
| "render (JArr js) = ''['' @ join '','' (map render js) @ '']''"
| "render (JObj ms) = ''{'' @ join '','' (map (\<lambda>m. quote (fst m) @ '':'' @ render (snd m)) ms) @ ''}''"

text \<open>
  \<open>stringify\<close>: \<open>JSON.stringify(obj, replacer)\<close> with a fresh cache. The result is what
  was thrown, or what \<open>JSON.stringify\<close> returns: a string, or \<open>undefined\<close> (\<open>None\<close>).
\<close>

definition stringify :: "methods \<Rightarrow> heap \<Rightarrow> jsval \<Rightarrow> exn + string option" where
  "stringify tj h obj =
     (case ser_val True tj h [] [] obj of
        Inl e \<Rightarrow> Inl e
      | Inr (jo, cache) \<Rightarrow> Inr (map_option render jo))"

text \<open>
  \<open>ToString\<close>, which the template literal of \<open>tryToStringify\<close> applies to
  \<open>error.message\<close>. An array is joined with commas, \<open>null\<close> and \<open>undefined\<close> elements
  giving the empty text, as does an array met again inside itself (V8); the other objects
  have the built-in \<open>toString\<close> of their kind.
\<close>

function to_text :: "heap \<Rightarrow> ref list \<Rightarrow> jsval \<Rightarrow> string" where
  "to_text h stack v =
     (case v of
        VUndefined \<Rightarrow> ''undefined''
      | VNull \<Rightarrow> ''null''
      | VBool b \<Rightarrow> (if b then ''true'' else ''false'')
      | VNum n \<Rightarrow> number_text n
      | VBigInt n \<Rightarrow> number_text n
      | VStr s \<Rightarrow> s
      | VRef r \<Rightarrow>
          (case hlookup h r of
             Some (OArray es) \<Rightarrow>
               if r \<in> set stack then []
               else join '','' (map (\<lambda>e. if e = VUndefined \<or> e = VNull then [] else to_text h (r # stack) e) es)
           | Some (OError m) \<Rightarrow> (if m = [] then ''Error'' else ''Error: '' @ m)
           | Some (OFunction src b) \<Rightarrow> src
           | Some OPromise \<Rightarrow> ''[object Promise]''
           | _ \<Rightarrow> ''[object Object]''))"
  by pat_completeness auto

termination
  apply (relation "measure (\<lambda>(h, stack, v). unvisited h stack)")
  apply (auto simp: hlookup_def intro: unvisited_push split: if_splits)
  done

declare to_text.simps [simp del]

text \<open>
  \<open>tryToStringify\<close>: the \<open>catch\<close> clause reads \<open>error.message\<close> of whatever
  \<open>stringify\<close> threw and puts it into the diagnostic text; reading it can throw in turn,
  and nothing catches that.
\<close>

definition tryToStringify :: "methods \<Rightarrow> heap \<Rightarrow> jsval \<Rightarrow> string option completion" where
  "tryToStringify tj h v =
     (case stringify tj h v of
        Inr s \<Rightarrow> Returns s
      | Inl error \<Rightarrow>
          (case get_message h error of
             Throws x \<Rightarrow> Throws x
           | Returns message \<Rightarrow> Returns (Some (''[Error stringifying: '' @ to_text h [] message @ '']''))))"

section \<open>Marker scanner (\<open>hasWorksheetComment\<close>)\<close>

text \<open>
  A Babel comment node; only its \<open>value\<close> field (the text between the comment
  delimiters, leading blanks included) is read by the plugin.
\<close>

record comment =
  comment_value :: string

text \<open>
  The comment lists of a syntax node. Either list may be absent on the node
  (\<open>node.leadingComments || []\<close>).
\<close>

record node_comments =
  leadingComments :: "comment list option"
  trailingComments :: "comment list option"

text \<open>
  The part of a Babel \<open>NodePath\<close> the plugin reads: the node itself, its comments,
  \<open>node.loc?.start?.line\<close>, the comments of \<open>path.parent\<close> (absent for the root) and
  \<open>path.hub?.file?.opts?.filename\<close>.
\<close>

record 'n path =
  node :: 'n
  comments :: node_comments
  loc_line :: "nat option"
  parent :: "node_comments option"
  filename :: "string option"

definition or_empty :: "'a list option \<Rightarrow> 'a list" where
  "or_empty xs = (case xs of None \<Rightarrow> [] | Some ys \<Rightarrow> ys)"

text \<open>\<open>String.prototype.startsWith\<close>.\<close>

definition startsWith :: "string \<Rightarrow> string \<Rightarrow> bool" where
  "startsWith s p = (take (length p) s = p)"

definition hasWorksheetComment :: "'n path \<Rightarrow> bool" where
  "hasWorksheetComment p =
     (let allComments = or_empty (leadingComments (comments p)) @ or_empty (trailingComments (comments p));
          parentComments = (case parent p of
                              None \<Rightarrow> []
                            | Some q \<Rightarrow> or_empty (leadingComments q) @ or_empty (trailingComments q));
          allNodeComments = allComments @ parentComments
      in list_ex (\<lambda>c. startsWith (comment_value c) ''?'') allNodeComments)"

text \<open>
  The selection rule in the words of the specification: the test is made on the
  \<^emph>\<open>trimmed\<close> comment text. \<open>js_trim\<close> is \<open>String.prototype.trim\<close> on code units
  below 256 (blank, tab, line feed, vertical tab, form feed, carriage return,
  no-break space).
\<close>

definition js_trim :: "string \<Rightarrow> string" where
  "js_trim s = rev (dropWhile is_space (rev (dropWhile is_space s)))"

definition attached_comments :: "'n path \<Rightarrow> comment set" where
  "attached_comments p =
     set (or_empty (leadingComments (comments p))) \<union> set (or_empty (trailingComments (comments p)))
     \<union> (case parent p of
          None \<Rightarrow> {}
        | Some q \<Rightarrow> set (or_empty (leadingComments q)) \<union> set (or_empty (trailingComments q)))"

definition spec_isSelected :: "'n path \<Rightarrow> bool" where
  "spec_isSelected p = (\<exists>c \<in> attached_comments p. startsWith (js_trim (comment_value c)) ''?'')"

definition marked_path :: "string \<Rightarrow> unit path" where
  "marked_path txt =
     \<lparr>node = (), comments = \<lparr>leadingComments = None, trailingComments = Some [\<lparr>comment_value = txt\<rparr>]\<rparr>,
      loc_line = Some 1, parent = None, filename = Some ''test.ts''\<rparr>"

text \<open>The test \<open>hasWorksheetComment\<close> applies to each comment.\<close>

definition marker :: "comment \<Rightarrow> bool" where
  "marker c = startsWith (comment_value c) ''?''"

section \<open>Runtime: records, store and files\<close>

text \<open>
  \<open>DebugData\<close> (types.ts). The field \<open>called\<close> is typed \<open>any\<close>: it holds the thunk in
  the argument of \<open>inlineDebuggerWatch\<close>, the argument list in the argument of
  \<open>debugLog\<close>, and in a stored record one of the three shapes of \<open>called_val\<close>: a
  serialized value (what \<open>tryToStringify\<close> returned, or the initial text), the pair
  \<open>[error.message, stringError]\<close>, or the serialized arguments of a log call.
  Optional fields are \<open>option\<close>s; \<open>filePath\<close> is tested for absence by \<open>debugLog\<close>.
\<close>

datatype called_val = CStr "string option" | CErr jsval "string option" | CArgs "string option list"

record 'c DebugData =
  type :: string
  variable :: "string option"
  called :: 'c
  line :: "nat option"
  filePath :: "string option"
  prefix :: "string option"
  hide :: "bool option"

text \<open>
  The continuation \<open>.then(f).catch(g)\<close> that the monitor attaches to a promise, with the
  record and the flag its two callbacks close over; \<open>CatchOnly\<close> is \<open>.catch(g)\<close> alone.
\<close>

datatype reaction = ThenCatch "called_val DebugData" bool | CatchOnly "called_val DebugData" bool

text \<open>
  The state the runtime works on: the heap of the program's objects, the fields of the
  \<open>InlineDebuggerRuntime\<close> instance (\<open>dataFile\<close>, \<open>outputFile\<close>, \<open>isInitialized\<close>), the
  number of \<open>exit\<close>/\<open>beforeExit\<close> handler pairs registered on \<open>process\<close>,
  \<open>process.cwd()\<close>, the file system, and the continuations attached to promises that
  have not settled. A file is named by the segments of its absolute path and holds a JSON
  document: \<open>JSON.parse\<close> of a file gives back the document \<open>JSON.stringify\<close> wrote,
  and the indentation of the text is not represented. Writing can fail: \<open>faults\<close> gives,
  for a path, the error \<open>fs.writeFileSync\<close> throws when the file system refuses the
  write (a missing directory, a directory in the place of the file, no permission), and
  \<open>None\<close> when the write goes through.
\<close>

record world =
  heap :: heap
  dataFile :: "called_val DebugData list"
  outputFile :: string
  isInitialized :: bool
  exitHandlers :: nat
  cwd :: string
  files :: "string list \<rightharpoonup> json"
  faults :: "string list \<rightharpoonup> exn"
  reactions :: "(ref \<times> reaction) list"

text \<open>
  A computation of the program: it returns or throws, and leaves a new state. The thunk
  \<open>data.called\<close> is one (it may itself call the monitor), as is the log function. A
  computation that never returns is not represented: the monitor has no timeout, and its
  call would not return either.
\<close>

type_synonym 'a action = "world \<Rightarrow> 'a completion \<times> world"

text \<open>
  Paths. \<open>save\<close> writes to \<open>path.join(process.cwd(), this.outputFile)\<close>, the accessors
  pass \<open>this.outputFile\<close> itself to \<open>fs\<close>, which resolves a relative path against the
  working directory and takes an absolute one as it is.
\<close>

fun split_path :: "string \<Rightarrow> string list" where
  "split_path [] = [[]]"
| "split_path (c # cs) =
     (if c = CHR ''/'' then [] # split_path cs
      else (case split_path cs of [] \<Rightarrow> [[c]] | s # ss \<Rightarrow> (c # s) # ss))"

fun norm_segs :: "string list \<Rightarrow> string list \<Rightarrow> string list" where
  "norm_segs acc [] = rev acc"
| "norm_segs acc (s # ss) =
     (if s = [] \<or> s = ''.'' then norm_segs acc ss
      else if s = ''..'' then norm_segs (tl acc) ss
      else norm_segs (s # acc) ss)"

definition abs_key :: "string \<Rightarrow> string list" where
  "abs_key p = norm_segs [] (split_path p)"

definition isAbsolute :: "string \<Rightarrow> bool" where
  "isAbsolute p = (case p of [] \<Rightarrow> False | c # cs \<Rightarrow> c = CHR ''/'')"

definition outputPath :: "world \<Rightarrow> string list" where
  "outputPath w = abs_key (cwd w @ ''/'' @ outputFile w)"

definition accessorPath :: "world \<Rightarrow> string list" where
  "accessorPath w = (if isAbsolute (outputFile w) then abs_key (outputFile w)
                     else abs_key (cwd w @ ''/'' @ outputFile w))"

text \<open>
  \<open>JSON.stringify(this.dataFile, null, 2)\<close>: no replacer, so the message of an error
  record is serialized by \<open>JSON.stringify\<close>'s own rules (\<open>plain_json\<close>), under which a
  BigInt or a cycle throws. A field that is \<open>undefined\<close> is left out; in an array
  \<open>undefined\<close> is \<open>null\<close>. The keys come in the order of the object literal the
  transform emits. The values the monitor is given are taken to be without \<open>toJSON\<close>
  methods, here and in the monitor's calls of \<open>tryToStringify\<close>.
\<close>

definition opt_field :: "string \<Rightarrow> 'a option \<Rightarrow> ('a \<Rightarrow> json) \<Rightarrow> (string \<times> json) list" where
  "opt_field k v f = (case v of None \<Rightarrow> [] | Some x \<Rightarrow> [(k, f x)])"

definition text_json :: "string option \<Rightarrow> json" where
  "text_json s = (case s of None \<Rightarrow> JNull | Some t \<Rightarrow> JStr t)"

definition plain_json :: "heap \<Rightarrow> jsval \<Rightarrow> exn + json option" where
  "plain_json h v = (case ser_val False Map.empty h [] [] v of Inl e \<Rightarrow> Inl e | Inr (jo, c) \<Rightarrow> Inr jo)"

definition called_json :: "heap \<Rightarrow> called_val \<Rightarrow> exn + (string \<times> json) list" where
  "called_json h c =
     (case c of
        CStr s \<Rightarrow> Inr (opt_field ''called'' s JStr)
      | CErr m s \<Rightarrow>
          (case plain_json h m of
             Inl e \<Rightarrow> Inl e
           | Inr jo \<Rightarrow> Inr [(''called'', JArr [(case jo of None \<Rightarrow> JNull | Some j \<Rightarrow> j), text_json s])])
      | CArgs ss \<Rightarrow> Inr [(''called'', JArr (map text_json ss))])"

definition record_json :: "heap \<Rightarrow> called_val DebugData \<Rightarrow> exn + json" where
  "record_json h d =
     (case called_json h (called d) of
        Inl e \<Rightarrow> Inl e
      | Inr c \<Rightarrow>
          Inr (JObj ([(''type'', JStr (type d))]
                     @ opt_field ''filePath'' (filePath d) JStr
                     @ opt_field ''line'' (line d) (\<lambda>n. JNum (int n))
                     @ c
                     @ opt_field ''variable'' (variable d) JStr
                     @ opt_field ''hide'' (hide d) JBool
                     @ opt_field ''prefix'' (prefix d) JStr)))"

fun records_json :: "heap \<Rightarrow> called_val DebugData list \<Rightarrow> exn + json list" where
  "records_json h [] = Inr []"
| "records_json h (d # ds) =
     (case record_json h d of
        Inl e \<Rightarrow> Inl e
      | Inr j \<Rightarrow> (case records_json h ds of Inl e \<Rightarrow> Inl e | Inr js \<Rightarrow> Inr (j # js)))"

definition dataFile_json :: "heap \<Rightarrow> called_val DebugData list \<Rightarrow> exn + json" where
  "dataFile_json h ds = (case records_json h ds of Inl e \<Rightarrow> Inl e | Inr js \<Rightarrow> Inr (JArr js))"

text \<open>
  \<open>save\<close>: nothing when \<open>hide\<close>; else push, serialize everything, overwrite the file.
  Serializing and writing can each throw, and nothing in \<open>save\<close> catches: the record has
  been pushed by then and the file is as it was.
\<close>

definition save :: "bool \<Rightarrow> called_val DebugData option \<Rightarrow> unit action" where
  "save hid dataValue w =
     (if hid then (Returns (), w)
      else
        let w1 = (case dataValue of None \<Rightarrow> w | Some d \<Rightarrow> w\<lparr>dataFile := dataFile w @ [d]\<rparr>)
        in case dataFile_json (heap w1) (dataFile w1) of
             Inl e \<Rightarrow> (Throws e, w1)
           | Inr doc \<Rightarrow>
               (case faults w1 (outputPath w1) of
                  Some e \<Rightarrow> (Throws e, w1)
                | None \<Rightarrow> (Returns (), w1\<lparr>files := (files w1)(outputPath w1 \<mapsto> doc)\<rparr>)))"

definition initialize :: "string option \<Rightarrow> world \<Rightarrow> world" where
  "initialize opt w =
     w\<lparr>outputFile := (case opt of None \<Rightarrow> outputFile w | Some f \<Rightarrow> if f = [] then outputFile w else f),
       isInitialized := True,
       exitHandlers := Suc (exitHandlers w)\<rparr>"

definition ensureInitialized :: "world \<Rightarrow> world" where
  "ensureInitialized w = (if isInitialized w then w else initialize None w)"

definition exit_handler :: "unit action" where
  "exit_handler = save False None"

text \<open>
  The text \<open>tryToStringify\<close> returns for a value, or for what was thrown, when it returns
  (without methods it always does, see \<open>tryToStringify_plain\<close> below). A \<open>TypeError\<close>
  object has no enumerable property; the error of a failed system call has those listed
  in it.
\<close>

definition stringify_error :: "heap \<Rightarrow> exn \<Rightarrow> string option completion" where
  "stringify_error h e =
     (case e of
        Thrown v \<Rightarrow> tryToStringify Map.empty h v
      | TypeError m \<Rightarrow> Returns (Some (render (JObj [])))
      | SystemError m ps \<Rightarrow> Returns (Some (render (JObj ps))))"

definition returned :: "'a option completion \<Rightarrow> 'a option" where
  "returned c = (case c of Returns s \<Rightarrow> s | Throws x \<Rightarrow> None)"

definition serialized :: "heap \<Rightarrow> jsval \<Rightarrow> string option" where
  "serialized h v = returned (tryToStringify Map.empty h v)"

definition serialized_error :: "heap \<Rightarrow> exn \<Rightarrow> string option" where
  "serialized_error h e = returned (stringify_error h e)"




definition persisted :: "world \<Rightarrow> called_val DebugData \<Rightarrow> json list \<Rightarrow> world" where
  "persisted w d js = w\<lparr>dataFile := dataFile w @ [d], files := (files w)(outputPath w \<mapsto> JArr js)\<rparr>"

text \<open>
  The relation the specification states between the file and the sequence: the output file
  holds the JSON document of the whole in-memory sequence.
\<close>

definition mirrored :: "world \<Rightarrow> bool" where
  "mirrored w =
     (case dataFile_json (heap w) (dataFile w) of
        Inl e \<Rightarrow> False
      | Inr doc \<Rightarrow> files w (outputPath w) = Some doc)"

section \<open>Runtime: monitor\<close>

text \<open>\<open>after r c\<close>: the statement that produced \<open>r\<close> threw, or else the completion is \<open>c\<close>.\<close>

definition after :: "unit completion \<times> world \<Rightarrow> 'a completion \<Rightarrow> 'a completion \<times> world" where
  "after r c = (case r of (Throws x, w) \<Rightarrow> (Throws x, w) | (Returns u, w) \<Rightarrow> (c, w))"

definition not_a_function :: "string \<Rightarrow> exn" where
  "not_a_function what = TypeError (what @ '' is not a function'')"

text \<open>
  \<open>onError\<close>: first \<open>tryToStringify(error)\<close>, then the two assignments, the second of
  which reads \<open>error.message\<close>. The result is the record after them, or what was thrown
  on the way.
\<close>

definition onError :: "exn \<Rightarrow> called_val DebugData \<Rightarrow> heap \<Rightarrow> (called_val DebugData) completion" where
  "onError error dataValue h =
     (case stringify_error h error of
        Throws x \<Rightarrow> Throws x
      | Returns stringError \<Rightarrow>
          (case get_message h error of
             Throws x \<Rightarrow> Throws x
           | Returns m \<Rightarrow> Returns (dataValue\<lparr>type := ''error'', called := CErr m stringError\<rparr>)))"

definition hide_flag :: "'c DebugData \<Rightarrow> bool" where
  "hide_flag d = (hide d = Some True)"

definition with_called :: "'a DebugData \<Rightarrow> 'b \<Rightarrow> 'b DebugData" where
  "with_called d c =
     \<lparr>type = type d, variable = variable d, called = c, line = line d, filePath = filePath d,
      prefix = prefix d, hide = hide d\<rparr>"

text \<open>
  \<open>data.called = called.then(f).catch(g)\<close>. On a native promise both calls are the
  built-in methods and the pair of callbacks is attached. On a plain object \<open>then\<close> is
  its own property: calling what is not a function throws, calling a function completes as
  the function does, and \<open>.catch\<close> is then looked up on what it returned.
\<close>

definition register :: "ref \<Rightarrow> reaction \<Rightarrow> unit action" where
  "register p k w = (Returns (), w\<lparr>reactions := reactions w @ [(p, k)]\<rparr>)"

definition call_catch :: "called_val DebugData \<Rightarrow> bool \<Rightarrow> jsval \<Rightarrow> unit action" where
  "call_catch dv hid t w =
     (case t of
        VUndefined \<Rightarrow> (Throws (read_of_nullish ''undefined'' ''catch''), w)
      | VNull \<Rightarrow> (Throws (read_of_nullish ''null'' ''catch''), w)
      | VRef r \<Rightarrow>
          (case hlookup (heap w) r of
             Some OPromise \<Rightarrow> register r (CatchOnly dv hid) w
           | Some (OObject ps) \<Rightarrow>
               (case own_prop ps ''catch'' of
                  VRef f \<Rightarrow>
                    (case hlookup (heap w) f of
                       Some (OFunction src beh) \<Rightarrow>
                         (case beh of Throws x \<Rightarrow> (Throws x, w) | Returns u \<Rightarrow> (Returns (), w))
                     | _ \<Rightarrow> (Throws (not_a_function ''called.then(...).catch''), w))
                | _ \<Rightarrow> (Throws (not_a_function ''called.then(...).catch''), w))
           | _ \<Rightarrow> (Throws (not_a_function ''called.then(...).catch''), w))
      | _ \<Rightarrow> (Throws (not_a_function ''called.then(...).catch''), w))"

definition then_catch :: "called_val DebugData \<Rightarrow> bool \<Rightarrow> jsval \<Rightarrow> unit action" where
  "then_catch dv hid c w =
     (case c of
        VRef r \<Rightarrow>
          (case hlookup (heap w) r of
             Some OPromise \<Rightarrow> register r (ThenCatch dv hid) w
           | Some (OObject ps) \<Rightarrow>
               (case own_prop ps ''then'' of
                  VRef f \<Rightarrow>
                    (case hlookup (heap w) f of
                       Some (OFunction src beh) \<Rightarrow>
                         (case beh of Throws x \<Rightarrow> (Throws x, w) | Returns t \<Rightarrow> call_catch dv hid t w)
                     | _ \<Rightarrow> (Throws (not_a_function ''called.then''), w))
                | _ \<Rightarrow> (Throws (not_a_function ''called.then''), w))
           | _ \<Rightarrow> (Throws (not_a_function ''called.then''), w))
      | _ \<Rightarrow> (Throws (not_a_function ''called.then''), w))"

text \<open>The monitor. \<open>hide_flag\<close> is \<open>data.hide || false\<close>; \<open>with_called\<close> is the spread.\<close>

definition inlineDebuggerWatch :: "(jsval action) DebugData \<Rightarrow> jsval action" where
  "inlineDebuggerWatch data w0 =
     (let w = ensureInitialized w0;
          dataValue = with_called data (CStr (Some ''Failed Promise. Please use a .catch to display it''))
      in case called data w of
           (Throws error, w1) \<Rightarrow>
             (case onError error dataValue (heap w1) of
                Throws x \<Rightarrow> (Throws x, w1)
              | Returns dv \<Rightarrow> after (save (hide_flag data) (Some dv) w1) (Throws error))
         | (Returns v, w1) \<Rightarrow>
             if type data = ''error'' then
               (case onError (Thrown v) dataValue (heap w1) of
                  Throws x \<Rightarrow> (Throws x, w1)
                | Returns dv \<Rightarrow> after (save (hide_flag data) (Some dv) w1) (Throws (Thrown v)))
             else if has_then (heap w1) v then
               after (then_catch dataValue (hide_flag data) v w1) (Returns v)
             else
               (case tryToStringify Map.empty (heap w1) v of
                  Throws x \<Rightarrow> (Throws x, w1)
                | Returns s \<Rightarrow>
                    after (save (hide_flag data) (Some (dataValue\<lparr>called := CStr s\<rparr>)) w1) (Returns v)))"

text \<open>
  Settlement. \<open>on_resolved\<close> and \<open>on_rejected\<close> are the callbacks \<open>f\<close> and \<open>g\<close>;
  \<open>run_reaction\<close> is what the chain does when the promise it hangs on settles, and its
  result is the settlement of the promise the chain returns. When \<open>f\<close> throws, \<open>g\<close>
  runs next on the same record object; if \<open>f\<close> threw after its \<open>save\<close> had pushed the
  record, that object is in \<open>dataFile\<close> already and the assignments in \<open>g\<close> change
  that entry too (\<open>retagged\<close>). The two callbacks run on consecutive microtasks; the
  model runs them back to back.
\<close>

datatype settlement = Fulfilled jsval | Rejected exn






definition settled :: "jsval completion \<times> world \<Rightarrow> settlement \<times> world" where
  "settled r = (case r of (Returns v, w) \<Rightarrow> (Fulfilled v, w) | (Throws x, w) \<Rightarrow> (Rejected x, w))"






section \<open>Accessor facade\<close>

text \<open>
  \<open>getData\<close> and \<open>clearData\<close> of \<open>global.inlineDebugger\<close>, and the constructor, which
  here starts from a file system that holds no file and accepts every write.
\<close>

definition getData :: "world \<Rightarrow> json" where
  "getData w = (case files w (accessorPath w) of Some doc \<Rightarrow> doc | None \<Rightarrow> JArr [])"

definition clearData :: "world \<Rightarrow> world" where
  "clearData w =
     (case files w (accessorPath w) of
        Some doc \<Rightarrow> w\<lparr>files := (files w)(accessorPath w := None)\<rparr>
      | None \<Rightarrow> w)"

definition new_runtime :: "string option \<Rightarrow> string \<Rightarrow> heap \<Rightarrow> world" where
  "new_runtime opt dir h =
     initialize None
       \<lparr>heap = h, dataFile = [],
        outputFile = (case opt of None \<Rightarrow> ''.debug.data.json'' | Some f \<Rightarrow> if f = [] then ''.debug.data.json'' else f),
        isInitialized = False, exitHandlers = 0, cwd = dir, files = Map.empty, faults = Map.empty,
        reactions = []\<rparr>"

section \<open>Instrumentation transform\<close>

text \<open>
  The part of Babel's syntax tree this model covers: blocks, expression statements,
  \<open>return\<close> and \<open>throw\<close> statements, and the expressions the plugin's visitors for
  them read and build. A statement node carries its comment lists and \<open>loc.start.line\<close>
  (\<open>attrs\<close>); a node made by one of the builders of \<open>@babel/types\<close> has neither
  (\<open>built\<close>). Expression nodes are taken to carry no comments of their own (the parser
  attaches the comment behind a statement to the statement). An object property is
  \<open>objectProperty(identifier(key), value)\<close>, a member expression is the non-computed
  \<open>object.property\<close>; \<open>OtherExpression\<close> is an expression of a kind no visitor of the
  plugin is registered for, kept by its source text, and \<open>OtherStatement\<close> a statement
  of such a kind that holds no further statement (\<open>debugger;\<close>, \<open>break;\<close>).
\<close>

record attrs =
  attached :: node_comments
  loc_start_line :: "nat option"

definition built :: attrs where
  "built = \<lparr>attached = \<lparr>leadingComments = None, trailingComments = None\<rparr>, loc_start_line = None\<rparr>"

datatype expr =
    Identifier string
  | StringLiteral string
  | NumericLiteral nat
  | ObjectExpression "(string \<times> expr) list"
  | ArrowFunctionExpression "expr list" stmt
  | CallExpression expr "expr list"
  | NewExpression expr "expr list"
  | MemberExpression expr expr
  | ArrayExpression "expr list"
  | SequenceExpression "expr list"
  | OtherExpression string
and stmt =
    BlockStatement attrs "stmt list"
  | ExpressionStatement attrs expr
  | ReturnStatement attrs "expr option"
  | ThrowStatement attrs expr
  | OtherStatement attrs string

fun attrs_of :: "stmt \<Rightarrow> attrs" where
  "attrs_of (BlockStatement a ss) = a"
| "attrs_of (ExpressionStatement a e) = a"
| "attrs_of (ReturnStatement a r) = a"
| "attrs_of (ThrowStatement a e) = a"
| "attrs_of (OtherStatement a s) = a"

fun with_attrs :: "stmt \<Rightarrow> attrs \<Rightarrow> stmt" where
  "with_attrs (BlockStatement a ss) b = BlockStatement b ss"
| "with_attrs (ExpressionStatement a e) b = ExpressionStatement b e"
| "with_attrs (ReturnStatement a r) b = ReturnStatement b r"
| "with_attrs (ThrowStatement a e) b = ThrowStatement b e"
| "with_attrs (OtherStatement a s) b = OtherStatement b s"

text \<open>
  The path of a statement: the node, what the plugin reads off it, the comments of
  \<open>path.parent\<close> and the file name.
\<close>

definition path_of :: "string option \<Rightarrow> node_comments option \<Rightarrow> stmt \<Rightarrow> stmt path" where
  "path_of file par s =
     \<lparr>node = s, comments = attached (attrs_of s), loc_line = loc_start_line (attrs_of s),
      parent = par, filename = file\<rparr>"

text \<open>
  The path of the expression of an expression statement with the attributes \<open>a\<close>: its
  parent is the statement, and it starts where the statement starts.
\<close>

definition expression_path :: "string option \<Rightarrow> attrs \<Rightarrow> expr \<Rightarrow> expr path" where
  "expression_path file a e =
     \<lparr>node = e, comments = \<lparr>leadingComments = None, trailingComments = None\<rparr>,
      loc_line = loc_start_line a, parent = Some (attached a), filename = file\<rparr>"

text \<open>\<open>getFilePath\<close>, \<open>path.node.loc?.start?.line || 0\<close> and \<open>createWatchCall\<close>.\<close>

definition getFilePath :: "'n path \<Rightarrow> string" where
  "getFilePath p = (case filename p of None \<Rightarrow> ''unknown'' | Some f \<Rightarrow> if f = [] then ''unknown'' else f)"

definition node_line :: "'n path \<Rightarrow> nat" where
  "node_line p = (case loc_line p of None \<Rightarrow> 0 | Some n \<Rightarrow> n)"

definition createWatchCall :: "'n path \<Rightarrow> string \<Rightarrow> string option \<Rightarrow> expr" where
  "createWatchCall p ty var =
     CallExpression (Identifier ''inlineDebuggerWatch'')
       [ObjectExpression
          ([(''type'', StringLiteral ty),
            (''filePath'', StringLiteral (getFilePath p)),
            (''line'', NumericLiteral (node_line p)),
            (''called'', ArrowFunctionExpression [] (BlockStatement built []))]
           @ (case var of
                None \<Rightarrow> []
              | Some v \<Rightarrow> if v = [] then [] else [(''variable'', StringLiteral v)]))]"

text \<open>
  \<open>returning e\<close> is \<open>arrowFunctionExpression([], blockStatement([returnStatement(e)]))\<close>,
  and \<open>set_called\<close> is the assignment \<open>watchObject.properties[3].value = ...\<close> on the
  first argument of the call (\<open>createWatchCall\<close> always builds at least four properties).
\<close>

definition returning :: "expr \<Rightarrow> expr" where
  "returning e = ArrowFunctionExpression [] (BlockStatement built [ReturnStatement built (Some e)])"

definition set_called :: "expr \<Rightarrow> expr \<Rightarrow> expr" where
  "set_called watchCall fn =
     (case watchCall of
        CallExpression callee (ObjectExpression props # rest) \<Rightarrow>
          if 3 < length props
          then CallExpression callee (ObjectExpression (props[3 := (fst (props ! 3), fn)]) # rest)
          else watchCall
      | _ \<Rightarrow> watchCall)"

definition isCallExpression :: "expr \<Rightarrow> bool" where
  "isCallExpression e = (case e of CallExpression callee args \<Rightarrow> True | _ \<Rightarrow> False)"

text \<open>
  One call of a visitor on a path: it returns without touching the tree, it assigns to a
  field of the node (\<open>Mutated\<close>, with the node after the assignment), or it calls
  \<open>path.replaceWith\<close> with a node it has built.
\<close>

datatype 'a visit = Unchanged | Mutated 'a | Replaced 'a

definition visit_ExpressionStatement :: "stmt path \<Rightarrow> stmt visit" where
  "visit_ExpressionStatement p =
     (case node p of
        ExpressionStatement a expression \<Rightarrow>
          if \<not> hasWorksheetComment p then Unchanged
          else if isCallExpression expression then Unchanged
          else Replaced (ExpressionStatement built (SequenceExpression
                 [set_called (createWatchCall p ''expression'' None) (returning expression), expression]))
      | _ \<Rightarrow> Unchanged)"

definition visit_ThrowStatement :: "stmt path \<Rightarrow> stmt visit" where
  "visit_ThrowStatement p =
     (case node p of
        ThrowStatement a argument \<Rightarrow>
          if \<not> hasWorksheetComment p then Unchanged
          else Replaced (BlockStatement built
                 [ExpressionStatement built (set_called (createWatchCall p ''throw'' None) (returning argument)),
                  ThrowStatement built argument])
      | _ \<Rightarrow> Unchanged)"

definition visit_ReturnStatement :: "stmt path \<Rightarrow> stmt visit" where
  "visit_ReturnStatement p =
     (case node p of
        ReturnStatement a (Some argument) \<Rightarrow>
          if \<not> hasWorksheetComment p then Unchanged
          else Mutated (ReturnStatement a (Some (SequenceExpression
                 [set_called (createWatchCall p ''return'' None) (returning argument), argument])))
      | _ \<Rightarrow> Unchanged)"

text \<open>The visitor for call expressions, with \<open>wrapWithLog\<close> up to its \<open>replaceWith\<close>.\<close>

definition wrapWithLog :: "expr path \<Rightarrow> expr \<Rightarrow> expr list \<Rightarrow> expr" where
  "wrapWithLog p logFn args =
     CallExpression (Identifier ''debugLog'')
       [logFn,
        ObjectExpression
          [(''type'', StringLiteral ''log''),
           (''filePath'', StringLiteral (getFilePath p)),
           (''line'', NumericLiteral (node_line p)),
           (''called'', ArrayExpression args)]]"

definition visit_CallExpression :: "expr path \<Rightarrow> expr visit" where
  "visit_CallExpression p =
     (case node p of
        CallExpression callee arguments \<Rightarrow>
          if \<not> hasWorksheetComment p then Unchanged
          else (case callee of
                  MemberExpression (Identifier obj) (Identifier property) \<Rightarrow>
                    if obj = ''console''
                    then Replaced (wrapWithLog p (Identifier (''console.'' @ property)) arguments)
                    else Unchanged
                | _ \<Rightarrow> Unchanged)
      | _ \<Rightarrow> Unchanged)"

subsection \<open>The traversal around the visitors\<close>

text \<open>
  The plugin hands its visitors to \<open>@babel/traverse\<close>, which is not code of this
  repository; what follows is that library's behaviour as far as these visitors meet it.

  A visit of a path first calls the visitor for the type of its node. When the visitor
  has left the node in place, the children of the node are visited, each with that node
  as \<open>path.parent\<close>. \<open>path.replaceWith(replacement)\<close> copies the comments of the node
  being replaced onto the replacement (\<open>inheritsComments\<close>: for each of the comment
  lists, the replacement's own comments followed by the old node's), puts the
  replacement in the old node's place and requeues the path: the traversal does not
  descend into the node that was replaced but visits the same path again, so that the
  visitor for the replacement's type runs on the replacement, with the same parent.
  Every requeued visit is one more nested call of the traversal's queue loop, as is every
  descent into children: \<open>traverse\<close> takes the number of nested calls it may still make
  and returns \<open>None\<close> when that does not suffice. A statement on which it returns
  \<open>None\<close> for every number is one on which the library recurses until the engine's
  stack is exhausted.

  Of the expressions, the one an expression statement consists of is visited with the
  statement as its parent (\<open>traverse_expression\<close>). The operand of a \<open>return\<close> or
  \<open>throw\<close> statement whose comments carry the marker is never visited under that
  statement: its visitor has moved the operand into a node it built before the
  traversal descends. Every other expression node has a parent without comments and
  none of its own, so no visitor of the plugin is selected on it: such nodes are left
  as they are, among them everything the visitors above build.
\<close>

definition inheritsComments :: "node_comments \<Rightarrow> node_comments \<Rightarrow> node_comments" where
  "inheritsComments child old =
     \<lparr>leadingComments = Some (or_empty (leadingComments child) @ or_empty (leadingComments old)),
      trailingComments = Some (or_empty (trailingComments child) @ or_empty (trailingComments old))\<rparr>"

definition replaceWith :: "stmt \<Rightarrow> stmt \<Rightarrow> stmt" where
  "replaceWith old replacement =
     with_attrs replacement
       ((attrs_of replacement)\<lparr>attached := inheritsComments (attached (attrs_of replacement)) (attached (attrs_of old))\<rparr>)"

definition enter :: "stmt path \<Rightarrow> stmt visit" where
  "enter p =
     (case node p of
        ExpressionStatement a e \<Rightarrow> visit_ExpressionStatement p
      | ThrowStatement a e \<Rightarrow> visit_ThrowStatement p
      | ReturnStatement a r \<Rightarrow> visit_ReturnStatement p
      | _ \<Rightarrow> Unchanged)"

fun traverse_expression :: "nat \<Rightarrow> string option \<Rightarrow> attrs \<Rightarrow> expr \<Rightarrow> expr option" where
  "traverse_expression 0 file a e = None"
| "traverse_expression (Suc n) file a e =
     (case visit_CallExpression (expression_path file a e) of
        Replaced replacement \<Rightarrow> traverse_expression n file a replacement
      | _ \<Rightarrow> Some e)"

fun traverse :: "nat \<Rightarrow> string option \<Rightarrow> node_comments option \<Rightarrow> stmt \<Rightarrow> stmt option"
  and traverse_list :: "nat \<Rightarrow> string option \<Rightarrow> node_comments \<Rightarrow> stmt list \<Rightarrow> stmt list option"
where
  "traverse 0 file par s = None"
| "traverse (Suc n) file par s =
     (case enter (path_of file par s) of
        Replaced replacement \<Rightarrow> traverse n file par (replaceWith s replacement)
      | Mutated s' \<Rightarrow> Some s'
      | Unchanged \<Rightarrow>
          (case s of
             BlockStatement a body \<Rightarrow>
               (case traverse_list n file (attached a) body of
                  None \<Rightarrow> None
                | Some body' \<Rightarrow> Some (BlockStatement a body'))
           | ExpressionStatement a e \<Rightarrow>
               (case traverse_expression n file a e of
                  None \<Rightarrow> None
                | Some e' \<Rightarrow> Some (ExpressionStatement a e'))
           | _ \<Rightarrow> Some s))"
| "traverse_list n file par [] = Some []"
| "traverse_list n file par (s # ss) =
     (case traverse n file (Some par) s of
        None \<Rightarrow> None
      | Some s' \<Rightarrow> (case traverse_list n file par ss of None \<Rightarrow> None | Some ss' \<Rightarrow> Some (s' # ss')))"

section \<open>Running the emitted code\<close>

text \<open>
  What the emitted statements do when they run, as far as the claims need it. The
  evaluation of the program's own expressions and statements is a parameter (\<open>ev\<close>,
  \<open>evs\<close>); on top of it a call \<open>inlineDebuggerWatch({...})\<close> with the object literal the
  transform builds is a call of the monitor, whose thunk evaluates the returned
  expression; a sequence expression evaluates its operands in order and yields the last;
  an expression statement discards the value, a \<open>throw\<close> throws it, and a block runs its
  statements until one throws.
\<close>

definition watch_argument :: "(expr \<Rightarrow> jsval action) \<Rightarrow> (string \<times> expr) list \<Rightarrow> (jsval action) DebugData option" where
  "watch_argument ev props =
     (case (map_of props ''type'', map_of props ''called'') of
        (Some (StringLiteral ty), Some (ArrowFunctionExpression [] (BlockStatement a [ReturnStatement b (Some e)]))) \<Rightarrow>
          Some \<lparr>type = ty,
                variable = (case map_of props ''variable'' of Some (StringLiteral v) \<Rightarrow> Some v | _ \<Rightarrow> None),
                called = ev e,
                line = (case map_of props ''line'' of Some (NumericLiteral n) \<Rightarrow> Some n | _ \<Rightarrow> None),
                filePath = (case map_of props ''filePath'' of Some (StringLiteral f) \<Rightarrow> Some f | _ \<Rightarrow> None),
                prefix = None, hide = None\<rparr>
      | _ \<Rightarrow> None)"

definition run_call :: "(expr \<Rightarrow> jsval action) \<Rightarrow> expr \<Rightarrow> jsval action" where
  "run_call ev e =
     (case e of
        CallExpression (Identifier f) [ObjectExpression props] \<Rightarrow>
          if f = ''inlineDebuggerWatch''
          then (case watch_argument ev props of Some d \<Rightarrow> inlineDebuggerWatch d | None \<Rightarrow> ev e)
          else ev e
      | _ \<Rightarrow> ev e)"

fun run_sequence :: "jsval action list \<Rightarrow> jsval action" where
  "run_sequence [] w = (Returns VUndefined, w)"
| "run_sequence [a] w = a w"
| "run_sequence (a # b # bs) w =
     (case a w of (Throws x, w1) \<Rightarrow> (Throws x, w1) | (Returns v, w1) \<Rightarrow> run_sequence (b # bs) w1)"

definition run_expr :: "(expr \<Rightarrow> jsval action) \<Rightarrow> expr \<Rightarrow> jsval action" where
  "run_expr ev e =
     (case e of
        SequenceExpression es \<Rightarrow> run_sequence (map (run_call ev) es)
      | _ \<Rightarrow> run_call ev e)"

fun run_stmt :: "(expr \<Rightarrow> jsval action) \<Rightarrow> (stmt \<Rightarrow> unit action) \<Rightarrow> stmt \<Rightarrow> unit action"
  and run_block :: "(expr \<Rightarrow> jsval action) \<Rightarrow> (stmt \<Rightarrow> unit action) \<Rightarrow> stmt list \<Rightarrow> unit action"
where
  "run_stmt ev evs (ExpressionStatement a e) w =
     (case run_expr ev e w of (Throws x, w1) \<Rightarrow> (Throws x, w1) | (Returns v, w1) \<Rightarrow> (Returns (), w1))"
| "run_stmt ev evs (ThrowStatement a e) w =
     (case run_expr ev e w of (Throws x, w1) \<Rightarrow> (Throws x, w1) | (Returns v, w1) \<Rightarrow> (Throws (Thrown v), w1))"
| "run_stmt ev evs (BlockStatement a ss) w = run_block ev evs ss w"
| "run_stmt ev evs (ReturnStatement a r) w = evs (ReturnStatement a r) w"
| "run_stmt ev evs (OtherStatement a s) w = evs (OtherStatement a s) w"
| "run_block ev evs [] w = (Returns (), w)"
| "run_block ev evs (s # ss) w =
     (case run_stmt ev evs s w of (Throws x, w1) \<Rightarrow> (Throws x, w1) | (Returns u, w1) \<Rightarrow> run_block ev evs ss w1)"

text \<open>The call the transform emits, and the argument the monitor receives from it.\<close>

definition watch_call :: "'n path \<Rightarrow> string \<Rightarrow> expr \<Rightarrow> expr" where
  "watch_call p ty e =
     CallExpression (Identifier ''inlineDebuggerWatch'')
       [ObjectExpression
          [(''type'', StringLiteral ty),
           (''filePath'', StringLiteral (getFilePath p)),
           (''line'', NumericLiteral (node_line p)),
           (''called'', ArrowFunctionExpression [] (BlockStatement built [ReturnStatement built (Some e)]))]]"

definition watch_data :: "'n path \<Rightarrow> string \<Rightarrow> 'c \<Rightarrow> 'c DebugData" where
  "watch_data p ty c =
     \<lparr>type = ty, variable = None, called = c, line = Some (node_line p), filePath = Some (getFilePath p),
      prefix = None, hide = None\<rparr>"

text \<open>
  The attributes of a built node once \<open>replaceWith\<close> has put it in the place of a node
  with the attributes \<open>a\<close>, and the block the throw visitor builds for the operand
  \<open>arg\<close>, with given attributes and a given last statement.
\<close>

definition inherited :: "attrs \<Rightarrow> attrs" where
  "inherited a = built\<lparr>attached := inheritsComments (attached built) (attached a)\<rparr>"


section \<open>Example inputs\<close>








text \<open>
  A heap with an \<open>Error\<close>, a native promise, a thenable whose \<open>then\<close> returns
  \<open>undefined\<close>, and an object whose \<open>message\<close> is a BigInt; a runtime just constructed in
  the directory \<open>/proj\<close>; one whose output file lies in a directory that does not exist,
  with the error \<open>fs\<close> throws for it; monitor arguments whose thunk completes in a given
  way; a stored record that \<open>JSON.stringify\<close> cannot serialize.
\<close>

definition err_heap :: heap where
  "err_heap = [OError ''Name is required'', OPromise, OObject [(''then'', VRef 3)],
               OFunction ''then() {}'' (Returns VUndefined), OObject [(''message'', VBigInt 1)]]"

definition fresh_world :: world where
  "fresh_world = new_runtime None ''/proj'' err_heap"

definition enoent :: exn where
  "enoent = SystemError (''ENOENT: no such file or directory, open '' @ [CHR 0x27] @ ''/proj/sub/out.json'' @ [CHR 0x27])
     [(''errno'', JNum (- 2)), (''code'', JStr ''ENOENT''), (''syscall'', JStr ''open''),
      (''path'', JStr ''/proj/sub/out.json'')]"

definition sub_world :: world where
  "sub_world = (new_runtime (Some ''sub/out.json'') ''/proj'' err_heap)
                 \<lparr>faults := [[''proj'', ''sub'', ''out.json''] \<mapsto> enoent]\<rparr>"

definition watch_of :: "string \<Rightarrow> bool option \<Rightarrow> jsval completion \<Rightarrow> (jsval action) DebugData" where
  "watch_of t hid c =
     \<lparr>type = t, variable = None, called = (\<lambda>w. (c, w)), line = Some 3, filePath = Some ''a.ts'',
      prefix = None, hide = hid\<rparr>"

definition poisoned_record :: "called_val DebugData" where
  "poisoned_record =
     \<lparr>type = ''error'', variable = None, called = CErr (VBigInt 1) None, line = None,
      filePath = Some ''a.ts'', prefix = None, hide = None\<rparr>"




text \<open>Two records as the transform's bindings \<open>const a = 5\<close> and \<open>const b = 3\<close> produce them.\<close>

definition five_record :: "called_val DebugData" where
  "five_record =
     \<lparr>type = ''variable'', variable = Some ''a'', called = CStr (Some ''5''), line = Some 1,
      filePath = Some ''a.ts'', prefix = None, hide = None\<rparr>"

definition three_record :: "called_val DebugData" where
  "three_record =
     \<lparr>type = ''variable'', variable = Some ''b'', called = CStr (Some ''3''), line = Some 2,
      filePath = Some ''a.ts'', prefix = None, hide = None\<rparr>"

definition five_json :: json where
  "five_json = JObj [(''type'', JStr ''variable''), (''filePath'', JStr ''a.ts''), (''line'', JNum 1),
                     (''called'', JStr ''5''), (''variable'', JStr ''a'')]"

definition three_json :: json where
  "three_json = JObj [(''type'', JStr ''variable''), (''filePath'', JStr ''a.ts''), (''line'', JNum 2),
                      (''called'', JStr ''3''), (''variable'', JStr ''b'')]"

text \<open>
  Statements as the parser delivers them: a node with a comment \<open>//txt\<close> behind it on
  line \<open>n\<close>, inside a parent without comments; the operand of the fixture's
  \<open>throw new Error("Name is required")\<close> with its evaluation, which allocates a fresh
  \<open>Error\<close>; the statements \<open>riskyOperation();\<close> and \<open>2 + 3;\<close> of the README; an
  evaluation that leaves a trace on the heap each time it runs; a runtime with an empty
  heap.
\<close>

definition no_comments :: node_comments where
  "no_comments = \<lparr>leadingComments = None, trailingComments = None\<rparr>"

definition noted :: "string \<Rightarrow> nat \<Rightarrow> attrs" where
  "noted txt n =
     \<lparr>attached = \<lparr>leadingComments = None, trailingComments = Some [\<lparr>comment_value = txt\<rparr>]\<rparr>,
      loc_start_line = Some n\<rparr>"

definition new_error :: "expr" where
  "new_error = NewExpression (Identifier ''Error'') [StringLiteral ''Name is required'']"

text \<open>Evaluation of \<open>new Error(message)\<close>: a fresh \<open>Error\<close> object on the heap.\<close>

definition ev_new :: "expr \<Rightarrow> jsval action" where
  "ev_new e w =
     (case e of
        NewExpression (Identifier c) [StringLiteral m] \<Rightarrow>
          (Returns (VRef (length (heap w))), w\<lparr>heap := heap w @ [OError m]\<rparr>)
      | _ \<Rightarrow> (Returns VUndefined, w))"


definition empty_world :: world where
  "empty_world = new_runtime None ''/proj'' []"

definition risky_call :: expr where
  "risky_call = CallExpression (Identifier ''riskyOperation'') []"

definition sum_expr :: expr where
  "sum_expr = OtherExpression ''2 + 3''"



definition throw_record :: "nat \<Rightarrow> called_val DebugData" where
  "throw_record n =
     \<lparr>type = ''throw'', variable = None, called = CStr (Some ''{}''), line = Some n,
      filePath = Some ''user.ts'', prefix = None, hide = None\<rparr>"

definition throw_json :: "nat \<Rightarrow> json" where
  "throw_json n = JObj [(''type'', JStr ''throw''), (''filePath'', JStr ''user.ts''), (''line'', JNum (int n)),
                        (''called'', JStr ''{}'')]"

section \<open>Results: marker scanner\<close>

text \<open>
  C4, as stated, fails: the comment \<open>// ?\<close> has the value \<open>" ?"\<close>, whose trimmed text
  begins with the marker, yet \<open>hasWorksheetComment\<close> tests the raw value and does not
  select the node.
\<close>

theorem C4_trimmed_marker_counterexample:
  "spec_isSelected (marked_path '' ?'') \<and> \<not> hasWorksheetComment (marked_path '' ?'')"
  by (simp add: spec_isSelected_def attached_comments_def hasWorksheetComment_def marked_path_def
      or_empty_def startsWith_def js_trim_def is_space_def)

text \<open>
  C4, amended: a node is selected exactly when some comment attached to it (leading or
  trailing) or to its immediate parent has a raw value that begins with \<open>?\<close>; no
  trimming takes place.
\<close>

theorem C4_selected_iff_raw_prefix:
  "hasWorksheetComment p \<longleftrightarrow> (\<exists>c \<in> attached_comments p. startsWith (comment_value c) ''?'')"
  by (auto simp: hasWorksheetComment_def attached_comments_def list_ex_iff Let_def
      split: option.splits)

theorem C4_selected_iff_raw_prefix_witness:
  "hasWorksheetComment (marked_path ''? value'')
   \<and> (\<exists>c \<in> attached_comments (marked_path ''? value''). startsWith (comment_value c) ''?'')"
  using C4_selected_iff_raw_prefix [of "marked_path ''? value''"]
  by (simp add: attached_comments_def marked_path_def or_empty_def startsWith_def)

section \<open>Results: serializer\<close>

subsection \<open>Lemmas\<close>

lemma msgs_differ: "bigint_msg \<noteq> circular_msg"
  by (simp add: bigint_msg_def circular_msg_def)

lemma replacer_cases:
  assumes "replacer h cache v = (v', cache')"
  shows "(v' = v \<and> cache' = cache \<and> (\<forall>r. v \<noteq> VRef r) \<and> v \<noteq> VUndefined)
       \<or> (\<exists>s. v' = VStr s \<and> cache' = cache)
       \<or> (v' = VNull \<and> cache' = cache)
       \<or> (\<exists>r. v = VRef r \<and> v' = VUndefined \<and> cache' = cache \<and> r \<in> set cache)
       \<or> (\<exists>r. v = VRef r \<and> v' = v \<and> cache' = cache @ [r] \<and> r \<notin> set cache
              \<and> (\<forall>src b. hlookup h r \<noteq> Some (OFunction src b)))"
  using assms
  by (auto simp: replacer_def split: jsval.splits option.splits obj.splits if_splits)

lemma ser_invariant:
  "(rep \<and> set stack \<subseteq> set cache \<longrightarrow>
      (ser_val rep tj h stack cache v = Inl (TypeError circular_msg) \<longrightarrow> (\<exists>q. tj q = Some (Throws (TypeError circular_msg))))
      \<and> (\<forall>jo c. ser_val rep tj h stack cache v = Inr (jo, c) \<longrightarrow> set cache \<subseteq> set c))"
  "(rep \<and> set stack \<subseteq> set cache \<longrightarrow>
      (ser_props rep tj h stack cache ps = Inl (TypeError circular_msg) \<longrightarrow> (\<exists>q. tj q = Some (Throws (TypeError circular_msg))))
      \<and> (\<forall>ms c. ser_props rep tj h stack cache ps = Inr (ms, c) \<longrightarrow> set cache \<subseteq> set c))"
  "(rep \<and> set stack \<subseteq> set cache \<longrightarrow>
      (ser_elems rep tj h stack cache es = Inl (TypeError circular_msg) \<longrightarrow> (\<exists>q. tj q = Some (Throws (TypeError circular_msg))))
      \<and> (\<forall>js c. ser_elems rep tj h stack cache es = Inr (js, c) \<longrightarrow> set cache \<subseteq> set c))"
proof (induction rep tj h stack cache v and rep tj h stack cache ps and rep tj h stack cache es
    rule: ser_val_ser_props_ser_elems.induct)
  case (1 rep tj h stack cache v0)
  note sv = ser_val.simps[of True tj h stack cache v0]
  show ?case
  proof (intro impI)
    assume a: "rep \<and> set stack \<subseteq> set cache"
    then have rep: rep and inv: "set stack \<subseteq> set cache" by auto
    show "(ser_val rep tj h stack cache v0 = Inl (TypeError circular_msg) \<longrightarrow> (\<exists>q. tj q = Some (Throws (TypeError circular_msg)))) \<and>
      (\<forall>jo c. ser_val rep tj h stack cache v0 = Inr (jo, c) \<longrightarrow> set cache \<subseteq> set c)"
    proof (cases "toJSON_step tj v0")
      case (Throws x)
      then have "\<exists>q. tj q = Some (Throws x)"
        by (auto simp: toJSON_step_def split: jsval.splits option.splits)
      then show ?thesis using Throws rep by (auto simp: sv)
    next
      case (Returns v1)
      obtain v c1 where rp: "replacer h cache v1 = (v, c1)" by (cases "replacer h cache v1")
      note cs = replacer_cases[OF rp]
      show ?thesis
      proof (cases v)
        case (VRef r)
        with cs have v1: "v1 = VRef r" and c1: "c1 = cache @ [r]" and nc: "r \<notin> set cache"
          and nf: "\<And>src b. hlookup h r \<noteq> Some (OFunction src b)"
          by auto
        from nc inv have ns: "r \<notin> set stack" by auto
        have inv': "rep \<and> set (r # stack) \<subseteq> set c1" using inv c1 rep by auto
        have eq: "(v, c1) = (if rep then replacer h cache v1 else (v1, cache))" using rp rep by simp
        show ?thesis
        proof (cases "hlookup h r")
          case None
          then show ?thesis using Returns rp VRef c1 rep by (auto simp: sv msgs_differ)
        next
          case (Some ob)
          show ?thesis
          proof (cases ob)
            case (OObject ps)
            from "1.IH"(1)[OF Returns eq VRef Some OObject ns] inv'
            show ?thesis using Returns rp VRef Some OObject ns c1 rep
              by (auto simp: sv split: sum.splits)
          next
            case (OArray es)
            from "1.IH"(2)[OF Returns eq VRef Some OArray ns] inv'
            show ?thesis using Returns rp VRef Some OArray ns c1 rep
              by (auto simp: sv split: sum.splits)
          next
            case (OError m)
            then show ?thesis using Returns rp VRef Some ns c1 rep by (auto simp: sv)
          next
            case (OFunction src b)
            with Some nf show ?thesis by blast
          next
            case OPromise
            then show ?thesis using Returns rp VRef Some ns c1 rep by (auto simp: sv)
          qed
        qed
      qed (use Returns rp cs rep in \<open>auto simp: sv msgs_differ\<close>)
    qed
  qed
next
  case (2 rep tj h stack cache)
  then show ?case by simp
next
  case (3 rep tj h stack cache p ps)
  show ?case
  proof (intro impI)
    assume a: "rep \<and> set stack \<subseteq> set cache"
    then have rep: rep and inv: "set stack \<subseteq> set cache" by auto
    show "(ser_props rep tj h stack cache (p # ps) = Inl (TypeError circular_msg) \<longrightarrow> (\<exists>q. tj q = Some (Throws (TypeError circular_msg)))) \<and>
      (\<forall>ms c. ser_props rep tj h stack cache (p # ps) = Inr (ms, c) \<longrightarrow> set cache \<subseteq> set c)"
    proof (cases "ser_val rep tj h stack cache (snd p)")
      case (Inl e)
      then show ?thesis using "3.IH"(1) a by auto
    next
      case (Inr res)
      obtain jo c1 where res: "res = (jo, c1)" by (cases res)
      have sub: "set cache \<subseteq> set c1" using "3.IH"(1) a Inr res by auto
      then have inv1: "set stack \<subseteq> set c1" using inv by auto
      from "3.IH"(2)[OF Inr res[symmetric]] inv1 sub rep
      show ?thesis using Inr res by (auto split: sum.splits; blast)
    qed
  qed
next
  case (4 rep tj h stack cache)
  then show ?case by simp
next
  case (5 rep tj h stack cache e es)
  show ?case
  proof (intro impI)
    assume a: "rep \<and> set stack \<subseteq> set cache"
    then have rep: rep and inv: "set stack \<subseteq> set cache" by auto
    show "(ser_elems rep tj h stack cache (e # es) = Inl (TypeError circular_msg) \<longrightarrow> (\<exists>q. tj q = Some (Throws (TypeError circular_msg)))) \<and>
      (\<forall>js c. ser_elems rep tj h stack cache (e # es) = Inr (js, c) \<longrightarrow> set cache \<subseteq> set c)"
    proof (cases "ser_val rep tj h stack cache e")
      case (Inl x)
      then show ?thesis using "5.IH"(1) a by auto
    next
      case (Inr res)
      obtain jo c1 where res: "res = (jo, c1)" by (cases res)
      have sub: "set cache \<subseteq> set c1" using "5.IH"(1) a Inr res by auto
      then have inv1: "set stack \<subseteq> set c1" using inv by auto
      from "5.IH"(2)[OF Inr res[symmetric]] inv1 sub rep
      show ?thesis using Inr res by (auto split: sum.splits; blast)
    qed
  qed
qed

text \<open>What serialization can throw: one of its own two errors, or what a method threw.\<close>

lemma ser_errors:
  "ser_val rep tj h stack cache v = Inl e \<longrightarrow>
     e = TypeError bigint_msg \<or> e = TypeError circular_msg \<or> (\<exists>r. tj r = Some (Throws e))"
  "ser_props rep tj h stack cache ps = Inl e \<longrightarrow>
     e = TypeError bigint_msg \<or> e = TypeError circular_msg \<or> (\<exists>r. tj r = Some (Throws e))"
  "ser_elems rep tj h stack cache es = Inl e \<longrightarrow>
     e = TypeError bigint_msg \<or> e = TypeError circular_msg \<or> (\<exists>r. tj r = Some (Throws e))"
proof (induction rep tj h stack cache v and rep tj h stack cache ps and rep tj h stack cache es
    rule: ser_val_ser_props_ser_elems.induct)
  case (1 rep tj h stack cache v0)
  note sv = ser_val.simps[of rep tj h stack cache v0]
  show ?case
  proof (cases "toJSON_step tj v0")
    case (Throws x)
    then have "\<exists>r. tj r = Some (Throws x)"
      by (auto simp: toJSON_step_def split: jsval.splits option.splits)
    then show ?thesis using Throws by (auto simp: sv)
  next
    case (Returns v1)
    obtain v c1 where rp: "(v, c1) = (if rep then replacer h cache v1 else (v1, cache))"
      by (metis surj_pair)
    show ?thesis
    proof (cases v)
      case (VRef r)
      show ?thesis
      proof (cases "hlookup h r")
        case None
        then show ?thesis using Returns rp[symmetric] VRef by (simp add: sv)
      next
        case (Some ob)
        show ?thesis
        proof (cases "r \<in> set stack")
          case True
          then show ?thesis using Returns rp[symmetric] VRef Some
            by (cases ob) (auto simp: sv)
        next
          case False
          show ?thesis
          proof (cases ob)
            case (OObject ps)
            from "1.IH"(1)[OF Returns rp VRef Some OObject False]
            show ?thesis using Returns rp[symmetric] VRef Some OObject False
              by (auto simp: sv split: sum.splits)
          next
            case (OArray es)
            from "1.IH"(2)[OF Returns rp VRef Some OArray False]
            show ?thesis using Returns rp[symmetric] VRef Some OArray False
              by (auto simp: sv split: sum.splits)
          qed (use Returns rp[symmetric] VRef Some False in \<open>auto simp: sv\<close>)
        qed
      qed
    qed (use Returns rp[symmetric] in \<open>auto simp: sv\<close>)
  qed
next
  case (2 rep tj h stack cache)
  then show ?case by simp
next
  case (3 rep tj h stack cache p ps)
  show ?case
  proof (cases "ser_val rep tj h stack cache (snd p)")
    case (Inl x)
    then show ?thesis using "3.IH"(1) by auto
  next
    case (Inr res)
    obtain jo c1 where res: "res = (jo, c1)" by (cases res)
    from "3.IH"(2)[OF Inr res[symmetric]] show ?thesis using Inr res by (auto split: sum.splits)
  qed
next
  case (4 rep tj h stack cache)
  then show ?case by simp
next
  case (5 rep tj h stack cache e' es)
  show ?case
  proof (cases "ser_val rep tj h stack cache e'")
    case (Inl x)
    then show ?thesis using "5.IH"(1) by auto
  next
    case (Inr res)
    obtain jo c1 where res: "res = (jo, c1)" by (cases res)
    from "5.IH"(2)[OF Inr res[symmetric]] show ?thesis using Inr res by (auto split: sum.splits)
  qed
qed


lemma stringify_defined: "stringify tj h v \<noteq> Inr None"
proof (cases "toJSON_step tj v")
  case (Throws x)
  then show ?thesis by (simp add: stringify_def ser_val.simps)
next
  case (Returns v1)
  obtain v' c where rp: "replacer h [] v1 = (v', c)" by (cases "replacer h [] v1")
  from replacer_cases[OF rp] show ?thesis
    using rp Returns
    by (auto simp: stringify_def ser_val.simps[of True tj h "[]" "[]" v]
        split: sum.splits jsval.splits option.splits obj.splits)
qed

lemma stringify_not_circular:
  "stringify tj h v = Inl (TypeError circular_msg) \<Longrightarrow> \<exists>q. tj q = Some (Throws (TypeError circular_msg))"
  using ser_invariant(1)[of True "[]" "[]" tj h v]
  by (auto simp: stringify_def split: sum.splits)

lemma stringify_errors:
  assumes "stringify tj h v = Inl e"
  shows "e = TypeError bigint_msg \<or> (\<exists>r. tj r = Some (Throws e))"
  using ser_errors(1)[of True tj h "[]" "[]" v e] stringify_not_circular[of tj h v] assms
  by (auto simp: stringify_def split: sum.splits)

lemma to_text_string [simp]: "to_text h stack (VStr s) = s"
  by (simp add: to_text.simps)

text \<open>Without methods, \<open>tryToStringify\<close> returns a string.\<close>

lemma tryToStringify_plain: "\<exists>s. tryToStringify Map.empty h v = Returns (Some s)"
proof (cases "stringify Map.empty h v")
  case (Inl e)
  from stringify_errors[OF Inl] have "e = TypeError bigint_msg" by simp
  then show ?thesis using Inl by (simp add: tryToStringify_def get_message_def)
next
  case (Inr s)
  then show ?thesis using stringify_defined[of Map.empty h v] by (cases s) (auto simp: tryToStringify_def)
qed


subsection \<open>The two patterns\<close>














subsection \<open>Function values\<close>




subsection \<open>Cycles and exceptions\<close>




section \<open>Results: runtime monitor\<close>

subsection \<open>Lemmas\<close>

lemma after_simps [simp]:
  "after (Returns u, w) c = (c, w)"
  "after (Throws x, w) c = (Throws x, w)"
  by (simp_all add: after_def)


lemma serialized_error_simps:
  "serialized_error h (Thrown v) = serialized h v"
  "serialized_error h (TypeError m) = Some (render (JObj []))"
  "serialized_error h (SystemError m ps) = Some (render (JObj ps))"
  by (simp_all add: serialized_error_def stringify_error_def returned_def serialized_def)


lemma tryToStringify_serialized [simp]: "tryToStringify Map.empty h v = Returns (serialized h v)"
proof -
  obtain s where e: "tryToStringify Map.empty h v = Returns (Some s)"
    using tryToStringify_plain by blast
  have "serialized h v = Some s" unfolding serialized_def e by (simp add: returned_def)
  then show ?thesis using e by simp
qed

lemma stringify_error_serialized [simp]: "stringify_error h e = Returns (serialized_error h e)"
proof (cases e)
  case (Thrown v)
  then show ?thesis by (simp add: serialized_error_simps) (simp add: stringify_error_def)
next
  case (TypeError m)
  then show ?thesis by (simp add: serialized_error_simps) (simp add: stringify_error_def)
next
  case (SystemError m ps)
  then show ?thesis by (simp add: serialized_error_simps) (simp add: stringify_error_def)
qed

lemma save_hidden [simp]: "save True dv w = (Returns (), w)"
  by (simp add: save_def)

lemma save_ok:
  assumes "records_json (heap w) (dataFile w @ [d]) = Inr js" and "faults w (outputPath w) = None"
  shows "save False (Some d) w = (Returns (), persisted w d js)"
  using assms by (simp add: save_def persisted_def dataFile_json_def outputPath_def)

lemma save_fail:
  assumes "records_json (heap w) (dataFile w @ [d]) = Inl e"
  shows "save False (Some d) w = (Throws e, w\<lparr>dataFile := dataFile w @ [d]\<rparr>)"
  using assms by (simp add: save_def dataFile_json_def)

lemma save_refused:
  assumes "records_json (heap w) (dataFile w @ [d]) = Inr js" and "faults w (outputPath w) = Some e"
  shows "save False (Some d) w = (Throws e, w\<lparr>dataFile := dataFile w @ [d]\<rparr>)"
  using assms by (simp add: save_def dataFile_json_def outputPath_def)









subsection \<open>Synchronous errors\<close>


lemma fresh_world_simps [simp]:
  "heap fresh_world = err_heap" "dataFile fresh_world = []" "files fresh_world = Map.empty"
  "faults fresh_world = Map.empty"
  "reactions fresh_world = []" "isInitialized fresh_world" "ensureInitialized fresh_world = fresh_world"
  "outputPath fresh_world = [''proj'', ''.debug.data.json'']"
  "accessorPath fresh_world = [''proj'', ''.debug.data.json'']"
  by (simp_all add: fresh_world_def new_runtime_def initialize_def ensureInitialized_def outputPath_def
      accessorPath_def abs_key_def isAbsolute_def)

lemma sub_world_simps [simp]:
  "heap sub_world = err_heap" "dataFile sub_world = []" "files sub_world = Map.empty"
  "faults sub_world [''proj'', ''sub'', ''out.json''] = Some enoent"
  "reactions sub_world = []" "isInitialized sub_world" "ensureInitialized sub_world = sub_world"
  "outputPath sub_world = [''proj'', ''sub'', ''out.json'']"
  by (simp_all add: sub_world_def new_runtime_def initialize_def ensureInitialized_def outputPath_def
      abs_key_def)

lemma watch_of_simps [simp]:
  "type (watch_of t hid c) = t" "called (watch_of t hid c) w = (c, w)" "hide_flag (watch_of t hid c) = (hid = Some True)"
  by (simp_all add: watch_of_def hide_flag_def)




subsection \<open>Promises\<close>







lemma settled_simps [simp]:
  "settled (Returns v, w) = (Fulfilled v, w)"
  "settled (Throws x, w) = (Rejected x, w)"
  by (simp_all add: settled_def)



lemma records_json_poisoned: "records_json h (poisoned_record # ds) = Inl (TypeError bigint_msg)"
  by (simp add: record_json_def called_json_def plain_json_def ser_val.simps toJSON_step_def poisoned_record_def)


lemma path_simps [simp]:
  "outputPath (w\<lparr>dataFile := ds\<rparr>) = outputPath w"
  "outputPath (w\<lparr>files := fs\<rparr>) = outputPath w"
  "outputPath (w\<lparr>reactions := rs\<rparr>) = outputPath w"
  "outputPath (w\<lparr>heap := h\<rparr>) = outputPath w"
  "accessorPath (w\<lparr>dataFile := ds\<rparr>) = accessorPath w"
  "accessorPath (w\<lparr>files := fs\<rparr>) = accessorPath w"
  "accessorPath (w\<lparr>reactions := rs\<rparr>) = accessorPath w"
  by (simp_all add: outputPath_def accessorPath_def)



subsection \<open>Suppressed records\<close>


lemma after_snd [simp]: "snd (after r c) = snd r"
  by (cases r; cases "fst r") (auto simp: after_def)







section \<open>Results: store and accessor\<close>

lemma example_record_json [simp]:
  "record_json h five_record = Inr five_json"
  "record_json h three_record = Inr three_json"
  by (simp_all add: record_json_def called_json_def opt_field_def five_record_def three_record_def
      five_json_def three_json_def)

lemma save_flush:
  assumes "records_json (heap w) (dataFile w) = Inr js" and "faults w (outputPath w) = None"
  shows "save False None w = (Returns (), w\<lparr>files := (files w)(outputPath w \<mapsto> JArr js)\<rparr>)"
  using assms by (simp add: save_def dataFile_json_def)

lemma mirrored_persisted:
  assumes "records_json (heap w) (dataFile w @ [d]) = Inr js"
  shows "mirrored (persisted w d js)"
  using assms by (simp add: mirrored_def persisted_def dataFile_json_def)

lemma save_returns_mirrored:
  assumes "fst (save False dv w) = Returns ()"
  shows "mirrored (snd (save False dv w))"
  using assms
  by (cases dv)
     (auto simp: save_def mirrored_def dataFile_json_def Let_def outputPath_def split: sum.splits option.splits)

text \<open>
  C6, amended: a non-suppressed \<open>save\<close> whose record sequence can be serialized and whose
  file can be written appends its record (if it has one) and replaces the content of
  the output file by the JSON document of the entire sequence, whatever the file held;
  every non-suppressed \<open>save\<close> that returns leaves the file mirroring the sequence. A
  suppressed \<open>save\<close> changes nothing. Nothing is said here about \<open>clearData\<close>.
\<close>

theorem C6_save_rewrites_whole_file:
  "(records_json (heap w) (dataFile w @ [d]) = Inr js \<and> faults w (outputPath w) = None \<longrightarrow>
      save False (Some d) w = (Returns (), persisted w d js)
      \<and> dataFile (persisted w d js) = dataFile w @ [d]
      \<and> files (persisted w d js) = (files w)(outputPath w \<mapsto> JArr js)
      \<and> mirrored (persisted w d js))
   \<and> (records_json (heap w) (dataFile w) = Inr js' \<and> faults w (outputPath w) = None \<longrightarrow>
      save False None w = (Returns (), w\<lparr>files := (files w)(outputPath w \<mapsto> JArr js')\<rparr>)
      \<and> mirrored (w\<lparr>files := (files w)(outputPath w \<mapsto> JArr js')\<rparr>))
   \<and> (fst (save False dv w) = Returns () \<longrightarrow> mirrored (snd (save False dv w)))
   \<and> save True dv w = (Returns (), w)"
proof (intro conjI impI)
  assume a: "records_json (heap w) (dataFile w @ [d]) = Inr js \<and> faults w (outputPath w) = None"
  then show "save False (Some d) w = (Returns (), persisted w d js)" by (simp add: save_ok)
  show "dataFile (persisted w d js) = dataFile w @ [d]" by (simp add: persisted_def)
  show "files (persisted w d js) = (files w)(outputPath w \<mapsto> JArr js)" by (simp add: persisted_def)
  from a show "mirrored (persisted w d js)" by (simp add: mirrored_persisted)
next
  assume a: "records_json (heap w) (dataFile w) = Inr js' \<and> faults w (outputPath w) = None"
  then show "save False None w = (Returns (), w\<lparr>files := (files w)(outputPath w \<mapsto> JArr js')\<rparr>)"
    by (simp add: save_flush)
  from a show "mirrored (w\<lparr>files := (files w)(outputPath w \<mapsto> JArr js')\<rparr>)"
    by (simp add: mirrored_def dataFile_json_def)
next
  assume "fst (save False dv w) = Returns ()"
  then show "mirrored (snd (save False dv w))" by (rule save_returns_mirrored)
next
  show "save True dv w = (Returns (), w)" by simp
qed

theorem C6_save_rewrites_whole_file_witness:
  "records_json (heap fresh_world) (dataFile fresh_world @ [five_record]) = Inr [five_json]
   \<and> faults fresh_world (outputPath fresh_world) = None
   \<and> save False (Some five_record) fresh_world = (Returns (), persisted fresh_world five_record [five_json])
   \<and> mirrored (persisted fresh_world five_record [five_json])
   \<and> records_json (heap (persisted fresh_world five_record [five_json]))
        (dataFile (persisted fresh_world five_record [five_json]) @ [three_record]) = Inr [five_json, three_json]
   \<and> files (snd (save False (Some three_record) (persisted fresh_world five_record [five_json])))
        [''proj'', ''.debug.data.json'']
       = Some (JArr [five_json, three_json])
   \<and> mirrored (snd (save False (Some three_record) (persisted fresh_world five_record [five_json])))"
proof -
  have j1: "records_json (heap fresh_world) (dataFile fresh_world @ [five_record]) = Inr [five_json]"
    by simp
  have j2: "records_json (heap (persisted fresh_world five_record [five_json]))
        (dataFile (persisted fresh_world five_record [five_json]) @ [three_record]) = Inr [five_json, three_json]"
    by (simp add: persisted_def)
  have w1: "faults fresh_world (outputPath fresh_world) = None" by simp
  have w2: "faults (persisted fresh_world five_record [five_json]) (outputPath (persisted fresh_world five_record [five_json])) = None"
    by (simp add: persisted_def)
  note a = C6_save_rewrites_whole_file[where w = fresh_world and d = five_record and js = "[five_json]"]
  note b = C6_save_rewrites_whole_file[where w = "persisted fresh_world five_record [five_json]"
      and d = three_record and js = "[five_json, three_json]" and dv = "Some three_record"]
  from a j1 w1 have c1: "save False (Some five_record) fresh_world = (Returns (), persisted fresh_world five_record [five_json])"
    and c2: "mirrored (persisted fresh_world five_record [five_json])"
    by blast+
  from b j2 w2 have c3: "save False (Some three_record) (persisted fresh_world five_record [five_json])
      = (Returns (), persisted (persisted fresh_world five_record [five_json]) three_record [five_json, three_json])"
    by blast
  have c4: "files (snd (save False (Some three_record) (persisted fresh_world five_record [five_json])))
        [''proj'', ''.debug.data.json''] = Some (JArr [five_json, three_json])"
    unfolding c3 by (simp add: persisted_def)
  have "fst (save False (Some three_record) (persisted fresh_world five_record [five_json])) = Returns ()"
    unfolding c3 by simp
  with b have c5: "mirrored (snd (save False (Some three_record) (persisted fresh_world five_record [five_json])))"
    by blast
  show ?thesis using j1 w1 j2 c1 c2 c4 c5 by blast
qed

text \<open>
  C6, as stated, fails: when the output file lies in a directory that does not exist, a
  non-suppressed append pushes its record and the write throws, so the sequence holds a
  record and there is no file; and after one record has been written, an append of a
  record that cannot be serialized pushes it and throws before the file is written, so
  the file still holds the first record alone.
\<close>

theorem C6_file_not_always_mirror_counterexample:
  "save False (Some five_record) sub_world = (Throws enoent, sub_world\<lparr>dataFile := [five_record]\<rparr>)
   \<and> files (snd (save False (Some five_record) sub_world)) (outputPath sub_world) = None
   \<and> getData (snd (save False (Some five_record) sub_world)) = JArr []
   \<and> \<not> mirrored (snd (save False (Some five_record) sub_world))
   \<and> save False (Some poisoned_record) (persisted fresh_world five_record [five_json])
       = (Throws (TypeError bigint_msg),
          (persisted fresh_world five_record [five_json])\<lparr>dataFile := [five_record, poisoned_record]\<rparr>)
   \<and> files (snd (save False (Some poisoned_record) (persisted fresh_world five_record [five_json])))
         (outputPath fresh_world) = Some (JArr [five_json])
   \<and> \<not> mirrored (snd (save False (Some poisoned_record) (persisted fresh_world five_record [five_json])))"
proof -
  have s: "save False (Some five_record) sub_world = (Throws enoent, sub_world\<lparr>dataFile := [five_record]\<rparr>)"
    by (simp add: save_refused)
  have g: "getData (sub_world\<lparr>dataFile := [five_record]\<rparr>) = JArr []"
    by (simp add: getData_def accessorPath_def sub_world_def new_runtime_def initialize_def isAbsolute_def)
  have m: "\<not> mirrored (sub_world\<lparr>dataFile := [five_record]\<rparr>)"
    by (simp add: mirrored_def dataFile_json_def)
  have j: "records_json err_heap [five_record, poisoned_record] = Inl (TypeError bigint_msg)"
    using records_json_poisoned[of err_heap "[]"] by (simp del: records_json.simps add: records_json.simps(2)[of _ five_record])
  have b: "save False (Some poisoned_record) (persisted fresh_world five_record [five_json])
       = (Throws (TypeError bigint_msg),
          (persisted fresh_world five_record [five_json])\<lparr>dataFile := [five_record, poisoned_record]\<rparr>)"
    using save_fail[where w = "persisted fresh_world five_record [five_json]" and d = poisoned_record
        and e = "TypeError bigint_msg"] j
    by (simp add: persisted_def del: records_json.simps)
  have c: "\<not> mirrored ((persisted fresh_world five_record [five_json])\<lparr>dataFile := [five_record, poisoned_record]\<rparr>)"
    using j by (simp add: mirrored_def dataFile_json_def persisted_def del: records_json.simps)
  show ?thesis unfolding b s using g m c by (simp add: persisted_def)
qed

subsection \<open>Clearing\<close>

lemma clearData_dataFile: "dataFile (clearData w) = dataFile w"
  by (simp add: clearData_def split: option.splits)

text \<open>
  C7 fails on the code: \<open>clearData\<close> deletes the file and leaves \<open>dataFile\<close> as it is.
  After one record, a clear and a second record, the file holds both records.
\<close>

theorem C7_clear_keeps_records:
  "dataFile (clearData w) = dataFile w
   \<and> save False (Some five_record) fresh_world = (Returns (), persisted fresh_world five_record [five_json])
   \<and> files (clearData (persisted fresh_world five_record [five_json])) [''proj'', ''.debug.data.json''] = None
   \<and> getData (clearData (persisted fresh_world five_record [five_json])) = JArr []
   \<and> dataFile (clearData (persisted fresh_world five_record [five_json])) = [five_record]
   \<and> getData (snd (save False (Some three_record) (clearData (persisted fresh_world five_record [five_json]))))
       = JArr [five_json, three_json]"
proof -
  have s1: "save False (Some five_record) fresh_world = (Returns (), persisted fresh_world five_record [five_json])"
    by (simp add: save_ok)
  have c: "clearData (persisted fresh_world five_record [five_json])
      = fresh_world\<lparr>dataFile := [five_record], files := Map.empty\<rparr>"
    by (simp add: clearData_def persisted_def)
  have s2: "save False (Some three_record) (fresh_world\<lparr>dataFile := [five_record], files := Map.empty\<rparr>)
      = (Returns (), persisted (fresh_world\<lparr>dataFile := [five_record], files := Map.empty\<rparr>) three_record
           [five_json, three_json])"
    by (simp add: save_ok)
  show ?thesis
    unfolding c s2 using s1 by (simp add: clearData_dataFile getData_def persisted_def)
qed

section \<open>Results: instrumentation transform\<close>

lemma set_called_createWatchCall:
  "set_called (createWatchCall p ty None) (returning e) = watch_call p ty e"
  by (simp add: set_called_def createWatchCall_def returning_def watch_call_def)





lemma watch_data_simps [simp]:
  "type (watch_data p ty c) = ty" "called (watch_data p ty c) = c" "\<not> hide_flag (watch_data p ty c)"
  by (simp_all add: watch_data_def hide_flag_def)

lemma isCall_watch [simp]: "isCallExpression (watch_call p ty e)"
  by (simp add: isCallExpression_def watch_call_def)

text \<open>Selection of a statement path, by its own comments and by those of its parent.\<close>

lemma selected_iff:
  "hasWorksheetComment (path_of file par s) \<longleftrightarrow>
     list_ex marker (or_empty (leadingComments (attached (attrs_of s))) @ or_empty (trailingComments (attached (attrs_of s))))
     \<or> (case par of None \<Rightarrow> False
         | Some q \<Rightarrow> list_ex marker (or_empty (leadingComments q) @ or_empty (trailingComments q)))"
  by (auto simp: hasWorksheetComment_def path_of_def Let_def marker_def list_ex_iff split: option.splits)

lemma inherited_comments [simp]:
  "or_empty (leadingComments (attached (inherited a))) = or_empty (leadingComments (attached a))"
  "or_empty (trailingComments (attached (inherited a))) = or_empty (trailingComments (attached a))"
  "loc_start_line (inherited a) = None"
  by (simp_all add: inherited_def inheritsComments_def built_def or_empty_def)

lemma built_comments [simp]:
  "or_empty (leadingComments (attached built)) = []"
  "or_empty (trailingComments (attached built)) = []"
  "loc_start_line built = None"
  by (simp_all add: built_def or_empty_def)

lemma replaceWith_built:
  "replaceWith old (BlockStatement built ss) = BlockStatement (inherited (attrs_of old)) ss"
  "replaceWith old (ExpressionStatement built e) = ExpressionStatement (inherited (attrs_of old)) e"
  by (simp_all add: replaceWith_def inherited_def)

text \<open>A selected statement that is not a call is replaced again at every visit.\<close>

lemma expression_requeued_forever:
  assumes "hasWorksheetComment (path_of file par (ExpressionStatement a e))" and "\<not> isCallExpression e"
  shows "traverse n file par (ExpressionStatement a e) = None"
  using assms
proof (induction n arbitrary: a e)
  case 0
  then show ?case by simp
next
  case (Suc n)
  let ?p = "path_of file par (ExpressionStatement a e)"
  let ?e' = "SequenceExpression [watch_call ?p ''expression'' e, e]"
  have v: "enter ?p = Replaced (ExpressionStatement built ?e')"
    using Suc.prems
    by (simp add: enter_def visit_ExpressionStatement_def path_of_def set_called_createWatchCall)
  have sel: "hasWorksheetComment (path_of file par (ExpressionStatement (inherited a) ?e'))"
    using Suc.prems(1) by (simp add: selected_iff)
  have nc: "\<not> isCallExpression ?e'" by (simp add: isCallExpression_def)
  from Suc.IH[OF sel nc] show ?case
    by (simp add: v replaceWith_built)
qed

text \<open>
  A call is left alone by the visitor for expression statements. The visitor for call
  expressions then rewrites it when it is a selected call of a method of \<open>console\<close>,
  and leaves every call of a plain identifier as it is.
\<close>

lemma identifier_call_unvisited:
  "traverse_expression (Suc n) file a (CallExpression (Identifier f) args)
     = Some (CallExpression (Identifier f) args)"
  by (simp add: visit_CallExpression_def expression_path_def)

lemma call_statement_kept:
  "traverse (Suc (Suc n)) file par (ExpressionStatement a (CallExpression (Identifier f) args))
     = Some (ExpressionStatement a (CallExpression (Identifier f) args))"
  by (simp add: enter_def visit_ExpressionStatement_def path_of_def isCallExpression_def
      visit_CallExpression_def expression_path_def)

lemma console_statement_wrapped:
  assumes "hasWorksheetComment (expression_path file a e)"
    and "e = CallExpression (MemberExpression (Identifier ''console'') (Identifier m)) args"
  shows "traverse (Suc (Suc (Suc n))) file par (ExpressionStatement a e)
     = Some (ExpressionStatement a
         (wrapWithLog (expression_path file a e) (Identifier (''console.'' @ m)) args))"
proof -
  have c: "isCallExpression e" using assms(2) by (simp add: isCallExpression_def)
  have v: "enter (path_of file par (ExpressionStatement a e)) = Unchanged"
    using c by (simp add: enter_def visit_ExpressionStatement_def path_of_def)
  have w: "visit_CallExpression (expression_path file a e)
      = Replaced (wrapWithLog (expression_path file a e) (Identifier (''console.'' @ m)) args)"
    using assms by (simp add: visit_CallExpression_def expression_path_def)
  have u: "visit_CallExpression (expression_path file a
        (wrapWithLog (expression_path file a e) (Identifier (''console.'' @ m)) args)) = Unchanged"
    by (simp add: visit_CallExpression_def expression_path_def wrapWithLog_def)
  have t1: "traverse_expression (Suc n) file a
        (wrapWithLog (expression_path file a e) (Identifier (''console.'' @ m)) args)
      = Some (wrapWithLog (expression_path file a e) (Identifier (''console.'' @ m)) args)"
    apply (subst traverse_expression.simps)
    apply (subst u)
    apply (simp only: visit.case)
    done
  have t2: "traverse_expression (Suc (Suc n)) file a e
      = Some (wrapWithLog (expression_path file a e) (Identifier (''console.'' @ m)) args)"
    apply (subst traverse_expression.simps)
    apply (subst w)
    apply (simp only: visit.case t1)
    done
  have "traverse (Suc (Suc (Suc n))) file par (ExpressionStatement a e)
      = (case traverse_expression (Suc (Suc n)) file a e of
                  None \<Rightarrow> None
                | Some e' \<Rightarrow> Some (ExpressionStatement a e'))"
    by (simp only: traverse.simps v visit.case stmt.case)
  then show ?thesis by (simp only: t2 option.case)
qed

text \<open>
  C5 fails on the code. The visitor replaces a selected expression statement whose
  expression is not a call by
  \<open>(inlineDebuggerWatch({..., called: () => { return E; }}), E);\<close>. The replacement
  inherits the marker comment and is again an expression statement that is not a call,
  so the traversal hands it to the visitor again, and so on without end: \<open>traverse\<close>
  returns for no number of nested calls, and no program is emitted. A statement whose
  expression is a call, of any callee, is left alone by the visitor, and a call of a
  plain function comes out of the traversal as it went in, unmonitored.
\<close>

theorem C5_marked_statement_not_rewritten:
  "(hasWorksheetComment (path_of fname par (ExpressionStatement a e)) \<and> \<not> isCallExpression e \<longrightarrow>
      visit_ExpressionStatement (path_of fname par (ExpressionStatement a e))
        = Replaced (ExpressionStatement built
            (SequenceExpression [watch_call (path_of fname par (ExpressionStatement a e)) ''expression'' e, e]))
      \<and> (\<forall>n. traverse n fname par (ExpressionStatement a e) = None))
   \<and> (isCallExpression e \<longrightarrow>
      visit_ExpressionStatement (path_of fname par (ExpressionStatement a e)) = Unchanged)
   \<and> (\<forall>n. traverse (n + 2) fname par (ExpressionStatement a (CallExpression (Identifier f) args))
         = Some (ExpressionStatement a (CallExpression (Identifier f) args)))"
proof (intro conjI impI allI)
  assume a: "hasWorksheetComment (path_of fname par (ExpressionStatement a e)) \<and> \<not> isCallExpression e"
  then show "visit_ExpressionStatement (path_of fname par (ExpressionStatement a e))
        = Replaced (ExpressionStatement built
            (SequenceExpression [watch_call (path_of fname par (ExpressionStatement a e)) ''expression'' e, e]))"
    by (simp add: visit_ExpressionStatement_def path_of_def set_called_createWatchCall)
  fix n
  from a show "traverse n fname par (ExpressionStatement a e) = None"
    using expression_requeued_forever by blast
next
  assume c: "isCallExpression e"
  then show "visit_ExpressionStatement (path_of fname par (ExpressionStatement a e)) = Unchanged"
    by (simp add: visit_ExpressionStatement_def path_of_def)
next
  fix n
  have e: "n + 2 = Suc (Suc n)" by simp
  show "traverse (n + 2) fname par (ExpressionStatement a (CallExpression (Identifier f) args))
         = Some (ExpressionStatement a (CallExpression (Identifier f) args))"
    unfolding e by (rule call_statement_kept)
qed

theorem C5_marked_statement_not_rewritten_witness:
  "hasWorksheetComment (path_of (Some ''math.js'') (Some no_comments) (ExpressionStatement (noted ''?'' 1) sum_expr))
   \<and> \<not> isCallExpression sum_expr
   \<and> (\<forall>n. traverse n (Some ''math.js'') (Some no_comments) (ExpressionStatement (noted ''?'' 1) sum_expr) = None)
   \<and> hasWorksheetComment (path_of (Some ''app.js'') (Some no_comments) (ExpressionStatement (noted ''?'' 2) risky_call))
   \<and> isCallExpression risky_call
   \<and> visit_ExpressionStatement (path_of (Some ''app.js'') (Some no_comments) (ExpressionStatement (noted ''?'' 2) risky_call))
       = Unchanged
   \<and> traverse 2 (Some ''app.js'') (Some no_comments) (ExpressionStatement (noted ''?'' 2) risky_call)
       = Some (ExpressionStatement (noted ''?'' 2) risky_call)"
proof -
  have s1: "hasWorksheetComment (path_of (Some ''math.js'') (Some no_comments) (ExpressionStatement (noted ''?'' 1) sum_expr))"
    by (simp add: selected_iff noted_def or_empty_def marker_def startsWith_def)
  have n1: "\<not> isCallExpression sum_expr" by (simp add: isCallExpression_def sum_expr_def)
  have s2: "hasWorksheetComment (path_of (Some ''app.js'') (Some no_comments) (ExpressionStatement (noted ''?'' 2) risky_call))"
    by (simp add: selected_iff noted_def or_empty_def marker_def startsWith_def)
  have c2: "isCallExpression risky_call" by (simp add: isCallExpression_def risky_call_def)
  note i = C5_marked_statement_not_rewritten[where fname = "Some ''math.js''" and par = "Some no_comments"
      and a = "noted ''?'' 1" and e = sum_expr]
  note j = C5_marked_statement_not_rewritten[where fname = "Some ''app.js''" and par = "Some no_comments"
      and a = "noted ''?'' 2" and e = risky_call and f = "''riskyOperation''" and args = "[]"]
  from i s1 n1 have r1: "\<forall>n. traverse n (Some ''math.js'') (Some no_comments) (ExpressionStatement (noted ''?'' 1) sum_expr) = None"
    by blast
  from j c2 have r2: "visit_ExpressionStatement (path_of (Some ''app.js'') (Some no_comments) (ExpressionStatement (noted ''?'' 2) risky_call))
       = Unchanged"
    by blast
  from j have "\<forall>n. traverse (n + 2) (Some ''app.js'') (Some no_comments)
         (ExpressionStatement (noted ''?'' 2) (CallExpression (Identifier ''riskyOperation'') []))
       = Some (ExpressionStatement (noted ''?'' 2) (CallExpression (Identifier ''riskyOperation'') []))"
    by blast
  then have "traverse (0 + 2) (Some ''app.js'') (Some no_comments)
         (ExpressionStatement (noted ''?'' 2) (CallExpression (Identifier ''riskyOperation'') []))
       = Some (ExpressionStatement (noted ''?'' 2) (CallExpression (Identifier ''riskyOperation'') []))"
    by (rule spec)
  then have r3: "traverse 2 (Some ''app.js'') (Some no_comments) (ExpressionStatement (noted ''?'' 2) risky_call)
       = Some (ExpressionStatement (noted ''?'' 2) risky_call)"
    by (simp only: risky_call_def add_0)
  show ?thesis using s1 n1 r1 s2 c2 r2 r3 by blast
qed

subsection \<open>Throw statements\<close>










lemma empty_world_simps [simp]:
  "heap empty_world = []" "dataFile empty_world = []" "files empty_world = Map.empty"
  "faults empty_world = Map.empty"
  "reactions empty_world = []" "isInitialized empty_world" "ensureInitialized empty_world = empty_world"
  "outputPath empty_world = [''proj'', ''.debug.data.json'']"
  by (simp_all add: empty_world_def new_runtime_def initialize_def ensureInitialized_def outputPath_def
      abs_key_def)

lemma initialized_simps [simp]:
  "isInitialized w \<Longrightarrow> ensureInitialized w = w"
  "isInitialized (w\<lparr>heap := h\<rparr>) = isInitialized w"
  "isInitialized (persisted w d js) = isInitialized w"
  "faults (persisted w d js) = faults w"
  "outputPath (persisted w d js) = outputPath w"
  "heap (persisted w d js) = heap w"
  "dataFile (persisted w d js) = dataFile w @ [d]"
  by (simp_all add: ensureInitialized_def persisted_def outputPath_def)


lemma fixture_paths [simp]:
  "getFilePath (path_of (Some ''user.ts'') par s) = ''user.ts''"
  "node_line (path_of fname par (ThrowStatement (noted txt n) e)) = n"
  "node_line (path_of fname par (ThrowStatement built e)) = 0"
  by (simp_all add: getFilePath_def node_line_def path_of_def noted_def built_def)

lemma error_serialized:
  "serialized [OError m] (VRef 0) = Some ''{}''"
  "serialized [OError m, OError m'] (VRef 1) = Some ''{}''"
  by (simp_all add: serialized_def returned_def tryToStringify_def stringify_def ser_val.simps
      toJSON_step_def replacer_def hlookup_def has_then_def del: tryToStringify_serialized)


lemma ev_new_simps [simp]:
  "ev_new new_error w = (Returns (VRef (length (heap w))), w\<lparr>heap := heap w @ [OError ''Name is required'']\<rparr>)"
  "run_expr ev_new new_error w = (Returns (VRef (length (heap w))), w\<lparr>heap := heap w @ [OError ''Name is required'']\<rparr>)"
  by (simp_all add: ev_new_def new_error_def run_expr_def run_call_def)



lemma throw_record_json' [simp]: "record_json h (throw_record n) = Inr (throw_json n)"
  by (simp add: record_json_def called_json_def opt_field_def throw_record_def throw_json_def)


lemma error_serialized_second [simp]: "serialized [OError m, OError m'] (VRef (Suc 0)) = Some ''{}''"
  using error_serialized(2)[of m m'] by simp





end
